theory Spec2Isabelle
  imports Main
begin

section \<open>Kanalyxer: the date-in-name reconciliation pipeline\<close>

text \<open>
  The development embeds \<^verbatim>\<open>kanalyxer/propinfo.py\<close>, \<^verbatim>\<open>kanalyxer/metamgr.py\<close> and
  \<^verbatim>\<open>kanalyxer/analyxer.py\<close>. The packages they import (\<^verbatim>\<open>kjmarotools\<close>,
  \<^verbatim>\<open>kpilexifmanager\<close>, \<^verbatim>\<open>kexiftoolmanager\<close>) and the operating system are collaborators:
  every call into them is a field of the record \<open>collab\<close> that each function of the model
  takes as its first argument, over an opaque world \<open>'w\<close> (the file system together with
  the two metadata engine objects).
\<close>

subsection \<open>Exceptions\<close>

datatype exn = AssertionError | ValueError | OSError | EOFError | OtherError

definition and_then :: "exn + 'a \<Rightarrow> ('a \<Rightarrow> exn + 'b) \<Rightarrow> exn + 'b" where
  "and_then m f = (case m of Inl e \<Rightarrow> Inl e | Inr x \<Rightarrow> f x)"

subsection \<open>Strings and paths\<close>

text \<open>
  \<^verbatim>\<open>str.upper()\<close> on the ASCII letters; every other character is kept. (Python's
  \<^verbatim>\<open>upper\<close> also maps letters beyond ASCII; file names are modelled as ASCII strings.)
\<close>

definition upper_char :: "char \<Rightarrow> char" where
  "upper_char c =
     (case map_of (zip ''abcdefghijklmnopqrstuvwxyz'' ''ABCDEFGHIJKLMNOPQRSTUVWXYZ'') c of
        None \<Rightarrow> c | Some u \<Rightarrow> u)"

definition upper :: "string \<Rightarrow> string" where
  "upper s = map upper_char s"

text \<open>\<^verbatim>\<open>s.split(c)\<close>: the pieces between the occurrences of \<open>c\<close>, never an empty list.\<close>

fun split :: "char \<Rightarrow> string \<Rightarrow> string list" where
  "split c [] = [[]]"
| "split c (x # xs) =
     (if x = c then [] # split c xs
      else (case split c xs of [] \<Rightarrow> [[x]] | s # ss \<Rightarrow> (x # s) # ss))"

text \<open>\<^verbatim>\<open>s.rfind(c)\<close>: the index of the last occurrence of \<open>c\<close>, or \<open>-1\<close>.\<close>

definition rfind :: "string \<Rightarrow> char \<Rightarrow> int" where
  "rfind s c =
     (if c \<in> set s
      then int (length s) - 1 - int (length (takeWhile (\<lambda>x. x \<noteq> c) (rev s)))
      else - 1)"

text \<open>
  A path is the list of its components. \<^verbatim>\<open>Path.name\<close> is the last component,
  \<^verbatim>\<open>Path.parent\<close> drops it, and \<^verbatim>\<open>joinpath\<close> appends one: every segment the
  program joins is a single relative component (a file name, a fixed folder name, the
  text of a date).
\<close>

type_synonym path = "string list"

definition name :: "path \<Rightarrow> string" where
  "name p = (if p = [] then [] else last p)"

definition parent :: "path \<Rightarrow> path" where
  "parent p = butlast p"

definition joinpath :: "path \<Rightarrow> string \<Rightarrow> path" where
  "joinpath p seg = p @ [seg]"

text \<open>
  \<^verbatim>\<open>Path.suffix\<close> as pathlib defines it up to Python 3.13:
  \<^verbatim>\<open>i = name.rfind('.'); return name[i:] if 0 < i < len(name) - 1 else ''\<close>.
\<close>

definition suffix :: "path \<Rightarrow> string" where
  "suffix p =
     (let nme = name p; i = rfind nme (CHR ''.'')
      in if 0 < i \<and> i < int (length nme) - 1 then drop (nat i) nme else [])"

subsection \<open>Dates\<close>

text \<open>
  A naive \<^verbatim>\<open>datetime.datetime\<close>. Comparison is the lexicographic comparison of the
  seven fields; subtraction goes through the proleptic Gregorian ordinal of the day, as
  the standard library computes it, and gives the difference in microseconds.
\<close>

record datetime =
  year :: int
  month :: int
  day :: int
  hour :: int
  minute :: int
  second :: int
  microsecond :: int

definition mk_datetime :: "int \<Rightarrow> int \<Rightarrow> int \<Rightarrow> int \<Rightarrow> int \<Rightarrow> int \<Rightarrow> int \<Rightarrow> datetime" where
  "mk_datetime y mo d h mi s us =
     \<lparr>year = y, month = mo, day = d, hour = h, minute = mi, second = s, microsecond = us\<rparr>"

definition dt_fields :: "datetime \<Rightarrow> int list" where
  "dt_fields d = [year d, month d, day d, hour d, minute d, second d, microsecond d]"

fun lex_le :: "int list \<Rightarrow> int list \<Rightarrow> bool" where
  "lex_le [] ys = True"
| "lex_le (x # xs) [] = False"
| "lex_le (x # xs) (y # ys) = (x < y \<or> (x = y \<and> lex_le xs ys))"

definition dt_le :: "datetime \<Rightarrow> datetime \<Rightarrow> bool" where
  "dt_le a b = lex_le (dt_fields a) (dt_fields b)"

definition is_leap :: "int \<Rightarrow> bool" where
  "is_leap y = (y mod 4 = 0 \<and> (y mod 100 \<noteq> 0 \<or> y mod 400 = 0))"

definition days_before_year :: "int \<Rightarrow> int" where
  "days_before_year y = (y - 1) * 365 + (y - 1) div 4 - (y - 1) div 100 + (y - 1) div 400"

definition days_before_month :: "int \<Rightarrow> int \<Rightarrow> int" where
  "days_before_month y m =
     [0, 31, 59, 90, 120, 151, 181, 212, 243, 273, 304, 334] ! nat (m - 1)
       + (if 2 < m \<and> is_leap y then 1 else 0)"

definition toordinal :: "datetime \<Rightarrow> int" where
  "toordinal d = days_before_year (year d) + days_before_month (year d) (month d) + day d"

text \<open>\<^verbatim>\<open>a - b\<close> of two datetimes, as the number of microseconds of the timedelta.\<close>

definition dt_sub :: "datetime \<Rightarrow> datetime \<Rightarrow> int" where
  "dt_sub a b =
     ((toordinal a - toordinal b) * 86400
        + ((second a + minute a * 60 + hour a * 3600)
            - (second b + minute b * 60 + hour b * 3600))) * 1000000
       + (microsecond a - microsecond b)"

text \<open>
  \<^verbatim>\<open>abs(delta.total_seconds()) > margin_secs\<close>. \<^verbatim>\<open>total_seconds\<close> is the quotient of
  the microseconds by \<open>10^6\<close>; the comparison is made here on the integers. (The float
  quotient decides the same way for every margin below \<open>2^33\<close> seconds.)
\<close>

definition exceeds_margin :: "int \<Rightarrow> int \<Rightarrow> bool" where
  "exceeds_margin delta margin_secs = (margin_secs * 1000000 < \<bar>delta\<bar>)"

definition zpad :: "nat \<Rightarrow> int \<Rightarrow> string" where
  "zpad w n = map (\<lambda>i. ''0123456789'' ! nat ((n div 10 ^ (w - 1 - i)) mod 10)) [0..<w]"

text \<open>\<^verbatim>\<open>str(d)\<close>: \<^verbatim>\<open>YYYY-MM-DD HH:MM:SS\<close>, followed by the microseconds when not zero.\<close>

definition str_datetime :: "datetime \<Rightarrow> string" where
  "str_datetime d =
     zpad 4 (year d) @ ''-'' @ zpad 2 (month d) @ ''-'' @ zpad 2 (day d) @ '' ''
       @ zpad 2 (hour d) @ '':'' @ zpad 2 (minute d) @ '':'' @ zpad 2 (second d)
       @ (if microsecond d = 0 then [] else ''.'' @ zpad 6 (microsecond d))"

subsection \<open>\<^verbatim>\<open>propinfo.FileInfo\<close>\<close>

text \<open>
  The seven dataclass fields, and the attribute \<^verbatim>\<open>_metadata_original_date\<close>. The class
  body binds that name to \<^verbatim>\<open>datetime.datetime(1, 1, 1)\<close> without an annotation, so it
  is a class attribute: an instance has no value of its own (\<open>None\<close> here) until
  \<^verbatim>\<open>set_metadate_original\<close> assigns one, and a read then finds the class value.
\<close>

record FileInfo =
  kdin :: bool
  ekdin :: bool
  prpdin :: bool
  metadte :: bool
  readable :: bool
  editable :: bool
  abs_path :: path
  metadata_original_date :: "datetime option"

definition new_FileInfo ::
  "bool \<Rightarrow> bool \<Rightarrow> bool \<Rightarrow> bool \<Rightarrow> bool \<Rightarrow> bool \<Rightarrow> path \<Rightarrow> FileInfo" where
  "new_FileInfo k e p m r ed f =
     \<lparr>kdin = k, ekdin = e, prpdin = p, metadte = m, readable = r, editable = ed,
      abs_path = f, metadata_original_date = None\<rparr>"

definition class_metadata_original_date :: datetime where
  "class_metadata_original_date = mk_datetime 1 1 1 0 0 0 0"

definition set_metadate_original :: "FileInfo \<Rightarrow> datetime \<Rightarrow> exn + FileInfo" where
  "set_metadate_original self date2add =
     (if \<not> metadte self then Inl AssertionError
      else Inr (self\<lparr>metadata_original_date := Some date2add\<rparr>))"

text \<open>The attribute lookup \<^verbatim>\<open>self._metadata_original_date\<close>: the instance, then the class.\<close>

definition attr_metadata_original_date :: "FileInfo \<Rightarrow> datetime" where
  "attr_metadata_original_date self =
     (case metadata_original_date self of
        None \<Rightarrow> class_metadata_original_date | Some d \<Rightarrow> d)"

definition get_metadate_original :: "FileInfo \<Rightarrow> exn + datetime" where
  "get_metadate_original self =
     (if \<not> metadte self then Inl AssertionError
      else Inr (attr_metadata_original_date self))"

subsection \<open>Collaborators\<close>

text \<open>
  The pure functions of \<^verbatim>\<open>kjmarotools.conventions\<close> and \<^verbatim>\<open>kjmarotools.proprietdin\<close>:
  they parse and build names and take the year bounds where the source passes them.
\<close>

record codec =
  is_file_kdin :: "path \<Rightarrow> int \<times> int \<Rightarrow> bool"
  is_file_ekdin :: "path \<Rightarrow> int \<times> int \<Rightarrow> bool"
  is_proprietary_din :: "path \<Rightarrow> int \<times> int \<Rightarrow> bool"
  get_file_kdin :: "path \<Rightarrow> int \<times> int \<Rightarrow> datetime"
  get_file_ekdin :: "path \<Rightarrow> int \<times> int \<Rightarrow> datetime"
  file_clean2trkdin :: "path \<Rightarrow> datetime \<Rightarrow> path"
  file_ekdin2clean :: "path \<Rightarrow> path"
  file_ekdin2kdin :: "path \<Rightarrow> int \<times> int \<Rightarrow> path"
  is_folder_kdin :: "path \<Rightarrow> int \<times> int \<Rightarrow> bool"
  get_folder_kdin_bounds :: "path \<Rightarrow> int \<times> int \<Rightarrow> datetime \<times> datetime"
  kdin_from_proprietary_din :: "path \<Rightarrow> path"

text \<open>
  The file system: the readers of \<^verbatim>\<open>kjmarotools.filetools\<close> and
  \<^verbatim>\<open>kjmarotools.ostools\<close>, and the calls of \<^verbatim>\<open>os\<close>, \<^verbatim>\<open>shutil\<close> and the console.
  A call that changes the world may raise: it returns the exception, if any, and the
  world it leaves.
\<close>

record 'w filesys =
  get_folders_tree :: "path \<Rightarrow> string list \<Rightarrow> 'w \<Rightarrow> path list"
  get_files_tree :: "path list \<Rightarrow> 'w \<Rightarrow> path list"
  itername :: "path \<Rightarrow> 'w \<Rightarrow> path"
  get_file_modify_date :: "path \<Rightarrow> 'w \<Rightarrow> datetime"
  path_exists :: "path \<Rightarrow> 'w \<Rightarrow> bool"
  os_rename :: "path \<Rightarrow> path \<Rightarrow> 'w \<Rightarrow> exn option \<times> 'w"
  os_makedirs :: "path \<Rightarrow> 'w \<Rightarrow> exn option \<times> 'w"
  shutil_copy2 :: "path \<Rightarrow> path \<Rightarrow> 'w \<Rightarrow> exn option \<times> 'w"
  console_input :: "'w \<Rightarrow> exn option \<times> 'w"

text \<open>
  What a freshly built engine (\<^verbatim>\<open>tmp = PilExifManager(logger=False)\<close>, or the ExifTool
  one) shows after loading a file: whether the date field is there
  (\<^verbatim>\<open>has_date_original\<close>, resp. \<^verbatim>\<open>has_metadata_date_original_field\<close>), and what
  \<^verbatim>\<open>get_date_original()\<close> and \<^verbatim>\<open>get_date_original_as_str()\<close> return.
\<close>

record probe =
  has_date_kwd :: bool
  probe_date_original :: datetime
  probe_date_original_as_str :: string

text \<open>
  The two metadata engines. \<open>pil_*\<close> and \<open>exf_*\<close> are the methods of the two instances
  that a \<^verbatim>\<open>MetaManager\<close> owns (their state is part of the world); \<open>tmp_pil\<close> and
  \<open>tmp_exf\<close> build a fresh engine, load the file and read it, or raise.
\<close>

record 'w engines =
  exiftool_detected :: bool
  pil_READABLE_EXTENSIONS :: "string list"
  pil_EDITABLE_EXTENSIONS :: "string list"
  exf_readable_extensions :: "string list"
  exf_editable_extensions :: "string list"
  pil_load_file :: "path \<Rightarrow> 'w \<Rightarrow> exn option \<times> 'w"
  pil_has_date_original :: "'w \<Rightarrow> bool"
  pil_get_date_original :: "'w \<Rightarrow> datetime"
  pil_set_date_original :: "datetime \<Rightarrow> 'w \<Rightarrow> exn option \<times> 'w"
  pil_save_file :: "'w \<Rightarrow> exn option \<times> 'w"
  pil_filepath :: "'w \<Rightarrow> path"
  exf_load_file :: "path \<Rightarrow> 'w \<Rightarrow> exn option \<times> 'w"
  exf_has_metadata_date_original :: "'w \<Rightarrow> bool"
  exf_get_date_original :: "'w \<Rightarrow> datetime"
  exf_set_date_original :: "datetime \<Rightarrow> 'w \<Rightarrow> exn option \<times> 'w"
  exf_save_file :: "'w \<Rightarrow> exn option \<times> 'w"
  tmp_pil :: "path \<Rightarrow> 'w \<Rightarrow> exn + probe"
  tmp_exf :: "path \<Rightarrow> 'w \<Rightarrow> exn + probe"

record 'w collab =
  cdc :: codec
  fsys :: "'w filesys"
  eng :: "'w engines"

subsection \<open>The world and the trace of the calls that reach it\<close>

text \<open>
  Every call that may change the world appends its event to the trace, once it has
  returned. \<open>LogInfo\<close> is the line with which a pass announces itself.
\<close>

datatype event =
    LogInfo string
  | PilLoad path
  | ExfLoad path
  | PilSetDate datetime
  | ExfSetDate datetime
  | PilSave
  | ExfSave
  | Makedirs path
  | Copy2 path path
  | Rename path path
  | Input

record 'w sys =
  world :: 'w
  trace :: "event list"

definition effect :: "event \<Rightarrow> ('w \<Rightarrow> exn option \<times> 'w) \<Rightarrow> 'w sys \<Rightarrow> exn + 'w sys" where
  "effect ev f s =
     (case f (world s) of
        (Some e, w') \<Rightarrow> Inl e
      | (None, w') \<Rightarrow> Inr (s\<lparr>world := w', trace := trace s @ [ev]\<rparr>))"

definition log_info :: "string \<Rightarrow> 'w sys \<Rightarrow> 'w sys" where
  "log_info msg s = s\<lparr>trace := trace s @ [LogInfo msg]\<rparr>"



subsection \<open>\<^verbatim>\<open>metamgr.MetaManager\<close>\<close>

datatype LoadId = PILLOW | EXIFTOOL

record MetaManager =
  mm_filepath :: "path option"
  mm_load_id :: LoadId
  mm_pilonly :: bool
  mm_year_bounds :: "int \<times> int"

definition new_MetaManager :: "'w collab \<Rightarrow> int \<times> int \<Rightarrow> bool \<Rightarrow> MetaManager" where
  "new_MetaManager E yb pilexif_only =
     \<lparr>mm_filepath = None, mm_load_id = PILLOW,
      mm_pilonly = (if exiftool_detected (eng E) then pilexif_only else True),
      mm_year_bounds = yb\<rparr>"

definition readable_extensions :: "'w collab \<Rightarrow> MetaManager \<Rightarrow> string list" where
  "readable_extensions E self =
     pil_READABLE_EXTENSIONS (eng E)
       @ (if \<not> mm_pilonly self then exf_readable_extensions (eng E) else [])"

definition editable_extensions :: "'w collab \<Rightarrow> MetaManager \<Rightarrow> string list" where
  "editable_extensions E self =
     pil_EDITABLE_EXTENSIONS (eng E)
       @ (if \<not> mm_pilonly self then exf_editable_extensions (eng E) else [])"

text \<open>
  \<^verbatim>\<open>file_has_damaged_date\<close>: the Pillow engine is tried first; an
  \<^verbatim>\<open>AssertionError\<close> is raised again when only Pillow is in use and otherwise hands
  over to ExifTool. The result is \<^verbatim>\<open>has_date_kwd and tmp.get_date_original().year == 1\<close>.
\<close>

definition file_has_damaged_date :: "'w collab \<Rightarrow> MetaManager \<Rightarrow> path \<Rightarrow> 'w \<Rightarrow> exn + bool" where
  "file_has_damaged_date E self file w =
     and_then
       (case tmp_pil (eng E) file w of
          Inr tmp \<Rightarrow> Inr tmp
        | Inl AssertionError \<Rightarrow>
            if mm_pilonly self then Inl AssertionError else tmp_exf (eng E) file w
        | Inl e \<Rightarrow> Inl e)
       (\<lambda>tmp. Inr (has_date_kwd tmp \<and> year (probe_date_original tmp) = 1))"

definition get_file_damaged_date :: "'w collab \<Rightarrow> MetaManager \<Rightarrow> path \<Rightarrow> 'w \<Rightarrow> exn + string" where
  "get_file_damaged_date E self file w =
     and_then
       (case tmp_pil (eng E) file w of
          Inr tmp \<Rightarrow> Inr tmp
        | Inl AssertionError \<Rightarrow>
            if mm_pilonly self then Inl AssertionError else tmp_exf (eng E) file w
        | Inl e \<Rightarrow> Inl e)
       (\<lambda>tmp. Inr (probe_date_original_as_str tmp))"

text \<open>
  \<^verbatim>\<open>load_file\<close>. The assertion on the extension comes first. A \<^verbatim>\<open>ValueError\<close> of the
  Pillow engine is raised again when only Pillow is in use; otherwise, and for an
  extension Pillow does not read, ExifTool loads the file.
\<close>

definition load_exiftool ::
  "'w collab \<Rightarrow> MetaManager \<Rightarrow> path \<Rightarrow> 'w sys \<Rightarrow> exn + (MetaManager \<times> 'w sys)" where
  "load_exiftool E self file s =
     and_then (effect (ExfLoad file) (exf_load_file (eng E) file) s)
       (\<lambda>s'. Inr (self\<lparr>mm_load_id := EXIFTOOL\<rparr>, s'))"

definition load_file ::
  "'w collab \<Rightarrow> MetaManager \<Rightarrow> path \<Rightarrow> 'w sys \<Rightarrow> exn + (MetaManager \<times> 'w sys)" where
  "load_file E self file s =
     (if upper (drop 1 (suffix file)) \<notin> set (readable_extensions E self)
      then Inl AssertionError
      else
        let self1 = self\<lparr>mm_filepath := Some file\<rparr> in
        if upper (drop 1 (suffix file)) \<in> set (pil_READABLE_EXTENSIONS (eng E))
        then
          (case pil_load_file (eng E) file (world s) of
             (None, w') \<Rightarrow>
                Inr (self1\<lparr>mm_load_id := PILLOW\<rparr>,
                     s\<lparr>world := w', trace := trace s @ [PilLoad file]\<rparr>)
           | (Some ValueError, w') \<Rightarrow>
                if mm_pilonly self1 then Inl ValueError
                else load_exiftool E (self1\<lparr>mm_load_id := PILLOW\<rparr>) file (s\<lparr>world := w'\<rparr>)
           | (Some e, w') \<Rightarrow> Inl e)
        else load_exiftool E self1 file s)"

definition save_file :: "'w collab \<Rightarrow> MetaManager \<Rightarrow> 'w sys \<Rightarrow> exn + 'w sys" where
  "save_file E self s =
     (if mm_load_id self = PILLOW then effect PilSave (pil_save_file (eng E)) s
      else effect ExfSave (exf_save_file (eng E)) s)"

definition get_date_original :: "'w collab \<Rightarrow> MetaManager \<Rightarrow> 'w \<Rightarrow> datetime" where
  "get_date_original E self w =
     (if mm_load_id self = PILLOW then pil_get_date_original (eng E) w
      else exf_get_date_original (eng E) w)"

definition has_valid_date_original :: "'w collab \<Rightarrow> MetaManager \<Rightarrow> 'w \<Rightarrow> bool" where
  "has_valid_date_original E self w =
     (let has_date = (if mm_load_id self = PILLOW then pil_has_date_original (eng E) w
                      else exf_has_metadata_date_original (eng E) w)
      in if has_date
         then (let date_original = get_date_original E self w;
                   (year0, year1) = mm_year_bounds self
               in year0 \<le> year date_original \<and> year date_original \<le> year1)
         else False)"

text \<open>
  \<^verbatim>\<open>set_date_original\<close>: two assertions, then the engine that loaded the file writes
  and saves; a file that Pillow loaded but cannot edit is loaded into ExifTool first.
\<close>

definition exf_write ::
  "'w collab \<Rightarrow> datetime \<Rightarrow> 'w sys \<Rightarrow> exn + 'w sys" where
  "exf_write E date2add s =
     and_then (effect (ExfSetDate date2add) (exf_set_date_original (eng E) date2add) s)
       (\<lambda>s1. effect ExfSave (exf_save_file (eng E)) s1)"

definition set_date_original ::
  "'w collab \<Rightarrow> MetaManager \<Rightarrow> datetime \<Rightarrow> 'w sys \<Rightarrow> exn + (MetaManager \<times> 'w sys)" where
  "set_date_original E self date2add s =
     (case mm_filepath self of
        None \<Rightarrow> Inl AssertionError
      | Some fp \<Rightarrow>
          if upper (drop 1 (suffix fp)) \<notin> set (editable_extensions E self)
          then Inl AssertionError
          else if mm_load_id self = EXIFTOOL
          then and_then (exf_write E date2add s) (\<lambda>s'. Inr (self, s'))
          else if upper (drop 1 (suffix (pil_filepath (eng E) (world s))))
                    \<in> set (pil_EDITABLE_EXTENSIONS (eng E))
          then
            and_then (effect (PilSetDate date2add) (pil_set_date_original (eng E) date2add) s)
              (\<lambda>s1. and_then (effect PilSave (pil_save_file (eng E)) s1)
                 (\<lambda>s'. Inr (self, s')))
          else
            and_then
              (effect (ExfLoad (pil_filepath (eng E) (world s)))
                 (exf_load_file (eng E) (pil_filepath (eng E) (world s))) s)
              (\<lambda>s1. and_then (exf_write E date2add s1)
                 (\<lambda>s'. Inr (self\<lparr>mm_load_id := EXIFTOOL\<rparr>, s'))))"

subsection \<open>\<^verbatim>\<open>propinfo.update_proprietary_din\<close>\<close>

text \<open>
  Modelled from the spec: \<^verbatim>\<open>kjmarotools.proprietdin.rename_proprietary_din_file\<close> is not
  among the sources. Section 4.2 of the specification says that the proprietary name is
  converted to the canonical one by renaming the file, and that the rename is skipped
  when the target name already exists on disk; the caller tells the two outcomes apart
  by the name of the path that comes back.
\<close>

definition rename_proprietary_din_file ::
  "'w collab \<Rightarrow> path \<Rightarrow> int \<times> int \<Rightarrow> 'w sys \<Rightarrow> exn + (path \<times> 'w sys)" where
  "rename_proprietary_din_file E file yb s =
     (let target = kdin_from_proprietary_din (cdc E) file
      in if path_exists (fsys E) target (world s) then Inr (file, s)
         else and_then (effect (Rename file target) (os_rename (fsys E) file target) s)
                (\<lambda>s'. Inr (target, s')))"

definition update_proprietary_din ::
  "'w collab \<Rightarrow> FileInfo \<Rightarrow> int \<times> int \<Rightarrow> 'w sys \<Rightarrow> exn + (FileInfo \<times> 'w sys)" where
  "update_proprietary_din E fileinfo yb s =
     and_then (rename_proprietary_din_file E (abs_path fileinfo) yb s)
       (\<lambda>(new_path, s').
          if name new_path \<noteq> name (abs_path fileinfo)
          then Inr (fileinfo\<lparr>abs_path := new_path, prpdin := False, kdin := True\<rparr>, s')
          else Inr (fileinfo, s'))"

subsection \<open>\<^verbatim>\<open>analyxer.Analyxer\<close>\<close>

definition TO_REVIEW_PATH :: string where
  "TO_REVIEW_PATH = ''Files to review''"

definition SKIP_EXTENSIONS :: "string list" where
  "SKIP_EXTENSIONS =
     [''DMG'', ''XSL'', ''XML'', ''TXT'', ''DOC'', ''DOCX'', ''PPT'', ''DB'',
      ''LNK'', ''GIF'', ''BUP'', ''IFO'', ''VOB'', ''MP3'', ''ODT'', ''RAR'',
      ''PDF'', ''RTF'', ''DS_STORE'']"

record 'w Analyxer =
  year_bounds :: "int \<times> int"
  fld_patterns :: "string list"
  base_path2scan :: path
  meta_logs_path :: path
  metadata_editor :: MetaManager
  files2analyse :: "FileInfo list"
  sys :: "'w sys"

definition new_Analyxer ::
  "'w collab \<Rightarrow> path \<Rightarrow> path \<Rightarrow> string list \<Rightarrow> int \<times> int \<Rightarrow> 'w \<Rightarrow> 'w Analyxer" where
  "new_Analyxer E base_path meta_loggers_path folder_patterns yb w =
     \<lparr>year_bounds = yb, fld_patterns = folder_patterns, base_path2scan = base_path,
      meta_logs_path = meta_loggers_path,
      metadata_editor = new_MetaManager E yb False,
      files2analyse = [],
      sys = \<lparr>world = w, trace = []\<rparr>\<rparr>"

text \<open>
  \<^verbatim>\<open>for idx, fileinfo in enumerate(self.files2analyse)\<close>: each turn reads the record of
  slot \<open>idx\<close>, may change it (the assignment \<^verbatim>\<open>self.files2analyse[idx] = ...\<close> puts the
  same object back), and carries the local lists and the world to the next turn. An
  exception ends the loop. The loops that only read the records use the same traversal.
\<close>

fun for_records ::
  "('a \<Rightarrow> FileInfo \<Rightarrow> exn + (FileInfo \<times> 'a)) \<Rightarrow> 'a \<Rightarrow> FileInfo list
     \<Rightarrow> exn + (FileInfo list \<times> 'a)" where
  "for_records body acc [] = Inr ([], acc)"
| "for_records body acc (fileinfo # rest) =
     and_then (body acc fileinfo)
       (\<lambda>(fileinfo', acc').
          and_then (for_records body acc' rest)
            (\<lambda>(rest', acc''). Inr (fileinfo' # rest', acc'')))"

subsubsection \<open>\<^verbatim>\<open>load_files2analyse\<close>\<close>

definition skip_file :: "path \<Rightarrow> bool" where
  "skip_file file =
     (last (split (CHR ''.'') (upper (name file))) \<in> set SKIP_EXTENSIONS
      \<or> upper (drop 1 (suffix file)) \<in> set SKIP_EXTENSIONS)"

definition scan_file :: "'w collab \<Rightarrow> 'w Analyxer \<Rightarrow> path \<Rightarrow> exn + 'w Analyxer" where
  "scan_file E self file =
     (if last (split (CHR ''.'') (upper (name file))) \<in> set SKIP_EXTENSIONS then Inr self
      else if upper (drop 1 (suffix file)) \<in> set SKIP_EXTENSIONS then Inr self
      else
        let sfx = upper (drop 1 (suffix file)) in
        and_then
          (if sfx \<in> set (readable_extensions E (metadata_editor self))
           then and_then (load_file E (metadata_editor self) file (sys self))
                  (\<lambda>(mm, s). Inr (has_valid_date_original E mm (world s), mm, s))
           else Inr (False, metadata_editor self, sys self))
          (\<lambda>(valid_mtadate, mm, s).
             let finfo = new_FileInfo
                   (is_file_kdin (cdc E) file (year_bounds self))
                   (is_file_ekdin (cdc E) file (year_bounds self))
                   (is_proprietary_din (cdc E) file (year_bounds self))
                   valid_mtadate
                   (sfx \<in> set (readable_extensions E mm))
                   (sfx \<in> set (editable_extensions E mm))
                   file
             in and_then
                  (if valid_mtadate
                   then set_metadate_original finfo (get_date_original E mm (world s))
                   else Inr finfo)
                  (\<lambda>finfo'. Inr (self\<lparr>metadata_editor := mm, sys := s,
                                      files2analyse := files2analyse self @ [finfo']\<rparr>))))"

fun scan_files :: "'w collab \<Rightarrow> 'w Analyxer \<Rightarrow> path list \<Rightarrow> exn + 'w Analyxer" where
  "scan_files E self [] = Inr self"
| "scan_files E self (file # files) =
     and_then (scan_file E self file) (\<lambda>self'. scan_files E self' files)"

definition load_files2analyse :: "'w collab \<Rightarrow> 'w Analyxer \<Rightarrow> exn + 'w Analyxer" where
  "load_files2analyse E self =
     (let s = log_info ''[ALX] <NewModulePhase> Scanning files in path...'' (sys self);
          folders2scan = get_folders_tree (fsys E) (base_path2scan self) (fld_patterns self)
                           (world s);
          files_in_path = get_files_tree (fsys E) folders2scan (world s)
      in scan_files E (self\<lparr>sys := s\<rparr>) files_in_path)"

subsubsection \<open>\<^verbatim>\<open>rename_files_with_proprietary_convention\<close>\<close>

text \<open>
  The call \<^verbatim>\<open>propinfo.update_proprietary_din(fileinfo)\<close> leaves the year bounds to
  their default, \<open>(1800, 2300)\<close>. The accumulator is
  \<open>(files_renamed, files_existing, sys)\<close>.
\<close>

definition proprietary_body ::
  "'w collab \<Rightarrow> path list \<times> path list \<times> 'w sys \<Rightarrow> FileInfo
     \<Rightarrow> exn + (FileInfo \<times> path list \<times> path list \<times> 'w sys)" where
  "proprietary_body E acc fileinfo =
     (case acc of (files_renamed, files_existing, s) \<Rightarrow>
        if prpdin fileinfo
        then
          let original_path = abs_path fileinfo in
          and_then (update_proprietary_din E fileinfo (1800, 2300) s)
            (\<lambda>(updated_info, s').
               if abs_path updated_info = original_path
               then Inr (updated_info, files_renamed, files_existing @ [original_path], s')
               else Inr (updated_info, files_renamed @ [abs_path updated_info],
                         files_existing, s'))
        else Inr (fileinfo, acc))"

text \<open>
  Every pass returns its list together with the two lists it keeps apart, where it has
  two, so that the properties can speak of both; \<^verbatim>\<open>run\<close> uses what the source returns.
\<close>

definition rename_files_with_proprietary_convention ::
  "'w collab \<Rightarrow> 'w Analyxer \<Rightarrow> exn + ((path list \<times> path list) \<times> 'w Analyxer)" where
  "rename_files_with_proprietary_convention E self =
     (let s = log_info
           ''[ALX] <NewModulePhase> Scanning proprietary date-in-name files to rename...''
           (sys self)
      in and_then (for_records (proprietary_body E) ([], [], s) (files2analyse self))
           (\<lambda>(recs, files_renamed, files_existing, s').
              Inr ((files_renamed, files_existing),
                   self\<lparr>files2analyse := recs, sys := s'\<rparr>)))"

subsubsection \<open>\<^verbatim>\<open>analyse_files_date_integrity\<close>\<close>

text \<open>
  The damaged-date test of one record: \<open>Some\<close> of the path to report (the file's path
  joined with the text of the damaged date) when the gateway sees a damaged date, else
  \<open>None\<close>.
\<close>

definition damaged_report ::
  "'w collab \<Rightarrow> MetaManager \<Rightarrow> FileInfo \<Rightarrow> 'w \<Rightarrow> exn + path option" where
  "damaged_report E mm fileinfo w =
     (if readable fileinfo
      then
        let abs_pth = abs_path fileinfo in
        and_then (file_has_damaged_date E mm abs_pth w)
          (\<lambda>damaged.
             if damaged
             then and_then (get_file_damaged_date E mm abs_pth w)
                    (\<lambda>dtei. Inr (Some (joinpath abs_pth dtei)))
             else Inr None)
      else Inr None)"

definition integrity_body ::
  "'w collab \<Rightarrow> MetaManager \<Rightarrow> path list \<times> path list \<times> 'w sys \<Rightarrow> FileInfo
     \<Rightarrow> exn + (FileInfo \<times> path list \<times> path list \<times> 'w sys)" where
  "integrity_body E mm acc fileinfo =
     (case acc of (files_damaged, files_date2review, s) \<Rightarrow>
        if kdin fileinfo \<or> ekdin fileinfo then Inr (fileinfo, acc)
        else if metadte fileinfo \<or> prpdin fileinfo then Inr (fileinfo, acc)
        else
          and_then (damaged_report E mm fileinfo (world s))
            (\<lambda>r. case r of
               Some dmg2path \<Rightarrow>
                 Inr (fileinfo, files_damaged @ [dmg2path], files_date2review, s)
             | None \<Rightarrow>
                 let mdf_date = get_file_modify_date (fsys E) (abs_path fileinfo) (world s);
                     new_name = file_clean2trkdin (cdc E) (abs_path fileinfo) mdf_date
                 in and_then
                      (effect (Rename (abs_path fileinfo) new_name)
                         (os_rename (fsys E) (abs_path fileinfo) new_name) s)
                      (\<lambda>s'. Inr (fileinfo\<lparr>abs_path := new_name, kdin := True\<rparr>,
                                  files_damaged, files_date2review @ [new_name], s'))))"

definition analyse_files_date_integrity ::
  "'w collab \<Rightarrow> 'w Analyxer \<Rightarrow> exn + (path list \<times> 'w Analyxer)" where
  "analyse_files_date_integrity E self =
     (let s = log_info ''[ALX] <NewModulePhase> Checking file-dates integrity...'' (sys self)
      in and_then
           (for_records (integrity_body E (metadata_editor self)) ([], [], s)
              (files2analyse self))
           (\<lambda>(recs, files_damaged, files_date2review, s').
              Inr (map parent files_damaged @ files_date2review,
                   self\<lparr>files2analyse := recs, sys := s'\<rparr>)))"

subsubsection \<open>\<^verbatim>\<open>write_date_to_files_with_edition_kdin\<close>\<close>

text \<open>
  The editable branch of one record, up to the rename: the two review folders are
  made, the file is copied to the first, the date decoded from the name is written to
  the metadata and saved, the file is copied to the second folder and then renamed.
  It returns the new name, the date, the editor and the world.
\<close>

definition edit_metadata ::
  "'w collab \<Rightarrow> int \<times> int \<Rightarrow> path \<Rightarrow> path \<Rightarrow> MetaManager \<Rightarrow> path \<Rightarrow> 'w sys
     \<Rightarrow> exn + (path \<times> datetime \<times> MetaManager \<times> 'w sys)" where
  "edit_metadata E yb fld4f2rev_originals fld4f2rev_edited mm file s =
     and_then (effect (Makedirs fld4f2rev_originals)
                 (os_makedirs (fsys E) fld4f2rev_originals) s) (\<lambda>s1.
     and_then (effect (Makedirs fld4f2rev_edited)
                 (os_makedirs (fsys E) fld4f2rev_edited) s1) (\<lambda>s2.
     and_then (effect (Copy2 file (joinpath fld4f2rev_originals (name file)))
                 (shutil_copy2 (fsys E) file (joinpath fld4f2rev_originals (name file))) s2)
       (\<lambda>s3.
     let date2add = get_file_ekdin (cdc E) file yb in
     and_then (load_file E mm file s3) (\<lambda>(mm1, s4).
     and_then (set_date_original E mm1 date2add s4) (\<lambda>(mm2, s5).
     and_then (save_file E mm2 s5) (\<lambda>s6.
     and_then (effect (Copy2 file (joinpath fld4f2rev_edited (name file)))
                 (shutil_copy2 (fsys E) file (joinpath fld4f2rev_edited (name file))) s6)
       (\<lambda>s7.
     let new_rnme = itername (fsys E) (file_ekdin2clean (cdc E) file) (world s7) in
     and_then (effect (Rename file new_rnme) (os_rename (fsys E) file new_rnme) s7) (\<lambda>s8.
     Inr (new_rnme, date2add, mm2, s8)))))))))"

text \<open>The accumulator is \<open>(meta_edited, files_din_renamed, metadata_editor, sys)\<close>.\<close>

definition edition_body ::
  "'w collab \<Rightarrow> int \<times> int \<Rightarrow> path \<Rightarrow> path
     \<Rightarrow> path list \<times> path list \<times> MetaManager \<times> 'w sys \<Rightarrow> FileInfo
     \<Rightarrow> exn + (FileInfo \<times> path list \<times> path list \<times> MetaManager \<times> 'w sys)" where
  "edition_body E yb fld4f2rev_originals fld4f2rev_edited acc fileinfo =
     (case acc of (meta_edited, files_din_renamed, mm, s) \<Rightarrow>
        if ekdin fileinfo
        then
          if editable fileinfo
          then
            and_then
              (edit_metadata E yb fld4f2rev_originals fld4f2rev_edited mm
                 (abs_path fileinfo) s)
              (\<lambda>(new_rnme, date2add, mm', s').
                 and_then
                   (set_metadate_original
                      (fileinfo\<lparr>metadte := True, ekdin := False, abs_path := new_rnme\<rparr>)
                      date2add)
                   (\<lambda>fileinfo'.
                      Inr (fileinfo', meta_edited @ [new_rnme], files_din_renamed, mm', s')))
          else
            let new_rnme = itername (fsys E)
                             (file_ekdin2kdin (cdc E) (abs_path fileinfo) yb) (world s)
            in and_then
                 (effect (Rename (abs_path fileinfo) new_rnme)
                    (os_rename (fsys E) (abs_path fileinfo) new_rnme) s)
                 (\<lambda>s'. Inr (fileinfo\<lparr>abs_path := new_rnme, ekdin := False, kdin := True\<rparr>,
                             meta_edited, files_din_renamed @ [new_rnme], mm, s'))
        else Inr (fileinfo, acc))"

definition write_date_to_files_with_edition_kdin ::
  "'w collab \<Rightarrow> 'w Analyxer \<Rightarrow> exn + (path list \<times> 'w Analyxer)" where
  "write_date_to_files_with_edition_kdin E self =
     (let s = log_info
            ''[ALX] <NewModulePhase> Scanning edition-date-in-name files to store...''
            (sys self);
          folder2review = itername (fsys E)
             (joinpath (meta_logs_path self) TO_REVIEW_PATH) (world s);
          fld4f2rev_originals = joinpath folder2review ''originals'';
          fld4f2rev_edited = joinpath folder2review ''edited''
      in and_then
           (for_records
              (edition_body E (year_bounds self) fld4f2rev_originals fld4f2rev_edited)
              ([], [], metadata_editor self, s) (files2analyse self))
           (\<lambda>(recs, meta_edited, files_din_renamed, mm, s').
              Inr (files_din_renamed @ meta_edited,
                   self\<lparr>files2analyse := recs, metadata_editor := mm, sys := s'\<rparr>)))"

subsubsection \<open>\<^verbatim>\<open>analyse_files_date_consistency\<close>\<close>

definition consistency_body ::
  "'w collab \<Rightarrow> int \<times> int \<Rightarrow> int \<Rightarrow> path list \<Rightarrow> FileInfo
     \<Rightarrow> exn + (FileInfo \<times> path list)" where
  "consistency_body E yb margin_secs inconsistent fileinfo =
     (if kdin fileinfo \<and> metadte fileinfo
      then
        and_then (get_metadate_original fileinfo)
          (\<lambda>meta_date.
             let kdin_date = get_file_kdin (cdc E) (abs_path fileinfo) yb in
             if exceeds_margin (dt_sub meta_date kdin_date) margin_secs
             then Inr (fileinfo,
                       inconsistent @ [joinpath (abs_path fileinfo) (str_datetime meta_date)])
             else Inr (fileinfo, inconsistent))
      else Inr (fileinfo, inconsistent))"

definition analyse_files_date_consistency ::
  "'w collab \<Rightarrow> int \<Rightarrow> 'w Analyxer \<Rightarrow> exn + (path list \<times> 'w Analyxer)" where
  "analyse_files_date_consistency E margin_secs self =
     (let s = log_info
            ''[ALX] <NewModulePhase> Scanning file Metadates and KDIN consistency...''
            (sys self)
      in and_then
           (for_records (consistency_body E (year_bounds self) margin_secs) []
              (files2analyse self))
           (\<lambda>(recs, inconsistent).
              Inr (map parent inconsistent, self\<lparr>files2analyse := recs, sys := s\<rparr>)))"

subsubsection \<open>\<^verbatim>\<open>detect_files_out_of_folder_date_bounds\<close>\<close>

definition bounds_body ::
  "'w collab \<Rightarrow> int \<times> int \<Rightarrow> path list \<Rightarrow> FileInfo \<Rightarrow> exn + (FileInfo \<times> path list)" where
  "bounds_body E yb discrepances fileinfo =
     (let folder_path = parent (abs_path fileinfo) in
      if is_folder_kdin (cdc E) folder_path yb
      then
        let fld_bounds = get_folder_kdin_bounds (cdc E) folder_path yb in
        if kdin fileinfo
        then
          let kdn = get_file_kdin (cdc E) (abs_path fileinfo) yb in
          if dt_le (fst fld_bounds) kdn \<and> dt_le kdn (snd fld_bounds)
          then Inr (fileinfo, discrepances)
          else Inr (fileinfo,
                    discrepances @ [joinpath (abs_path fileinfo) (str_datetime kdn)])
        else if ekdin fileinfo
        then
          let edn = get_file_ekdin (cdc E) (abs_path fileinfo) yb in
          if dt_le (fst fld_bounds) edn \<and> dt_le edn (snd fld_bounds)
          then Inr (fileinfo, discrepances)
          else Inr (fileinfo,
                    discrepances @ [joinpath (abs_path fileinfo) (str_datetime edn)])
        else if readable fileinfo \<and> metadte fileinfo
        then
          and_then (get_metadate_original fileinfo)
            (\<lambda>dto.
               if dt_le (fst fld_bounds) dto \<and> dt_le dto (snd fld_bounds)
               then Inr (fileinfo, discrepances)
               else Inr (fileinfo,
                         discrepances @ [joinpath (abs_path fileinfo) (str_datetime dto)]))
        else Inr (fileinfo, discrepances)
      else Inr (fileinfo, discrepances))"

definition detect_files_out_of_folder_date_bounds ::
  "'w collab \<Rightarrow> 'w Analyxer \<Rightarrow> exn + (path list \<times> 'w Analyxer)" where
  "detect_files_out_of_folder_date_bounds E self =
     (let s = log_info ''[ALX] <NewModulePhase> Checking file-dates out of folder-bounds...''
            (sys self)
      in and_then
           (for_records (bounds_body E (year_bounds self)) [] (files2analyse self))
           (\<lambda>(recs, discrepances).
              Inr (map parent discrepances, self\<lparr>files2analyse := recs, sys := s\<rparr>)))"

subsubsection \<open>\<^verbatim>\<open>run\<close>\<close>

text \<open>
  The configuration lines that \<^verbatim>\<open>run\<close> logs first, and the result blocks that each
  pass logs after its loop, are left out: they read the lists and change nothing, and
  every path they print lies under the base path, so that \<^verbatim>\<open>relative_to\<close> does not
  raise.
\<close>

definition run :: "'w collab \<Rightarrow> int \<Rightarrow> bool \<Rightarrow> 'w Analyxer \<Rightarrow> exn + (bool \<times> 'w Analyxer)" where
  "run E margin_secs embedded self =
     and_then (load_files2analyse E self) (\<lambda>self1.
     and_then (rename_files_with_proprietary_convention E self1) (\<lambda>(lists, self2).
     and_then (analyse_files_date_integrity E self2) (\<lambda>(warns0, self3).
     and_then (write_date_to_files_with_edition_kdin E self3) (\<lambda>(warns1, self4).
     and_then (analyse_files_date_consistency E margin_secs self4) (\<lambda>(warns2, self5).
     and_then (detect_files_out_of_folder_date_bounds E self5) (\<lambda>(warns3, self6).
     and_then
       (if \<not> embedded
        then and_then (effect Input (console_input (fsys E)) (sys self6))
               (\<lambda>s. Inr (self6\<lparr>sys := s\<rparr>))
        else Inr self6)
       (\<lambda>self7.
          Inr (length warns0 + length warns1 + length warns2 + length warns3 \<noteq> 0,
               self7))))))))"

subsection \<open>The reports in the words of the specification\<close>

text \<open>
  Section 4.5: a record is inconsistent when it has both a KDIN and a valid metadata
  date and the two dates differ by more than the margin.
\<close>

definition inconsistent_dates :: "'w collab \<Rightarrow> int \<times> int \<Rightarrow> int \<Rightarrow> FileInfo \<Rightarrow> bool" where
  "inconsistent_dates E yb margin_secs fi =
     (kdin fi \<and> metadte fi
      \<and> exceeds_margin
          (dt_sub (attr_metadata_original_date fi) (get_file_kdin (cdc E) (abs_path fi) yb))
          margin_secs)"

text \<open>
  Section 4.6: the best date of a file is its KDIN date, else its EKDIN date, else its
  metadata date when the metadata is readable and valid; a file is out of bounds when
  its folder encodes bounds and its best date lies outside the closed interval.
\<close>

datatype date_source = FromKDIN | FromEKDIN | FromMetadata | NoDate

definition best_date_source :: "FileInfo \<Rightarrow> date_source" where
  "best_date_source fi =
     (if kdin fi then FromKDIN
      else if ekdin fi then FromEKDIN
      else if readable fi \<and> metadte fi then FromMetadata
      else NoDate)"

definition best_date :: "'w collab \<Rightarrow> int \<times> int \<Rightarrow> FileInfo \<Rightarrow> datetime option" where
  "best_date E yb fi =
     (case best_date_source fi of
        FromKDIN \<Rightarrow> Some (get_file_kdin (cdc E) (abs_path fi) yb)
      | FromEKDIN \<Rightarrow> Some (get_file_ekdin (cdc E) (abs_path fi) yb)
      | FromMetadata \<Rightarrow> Some (attr_metadata_original_date fi)
      | NoDate \<Rightarrow> None)"

definition within_bounds :: "datetime \<times> datetime \<Rightarrow> datetime \<Rightarrow> bool" where
  "within_bounds b d = (dt_le (fst b) d \<and> dt_le d (snd b))"

definition out_of_folder_bounds :: "'w collab \<Rightarrow> int \<times> int \<Rightarrow> FileInfo \<Rightarrow> bool" where
  "out_of_folder_bounds E yb fi =
     (is_folder_kdin (cdc E) (parent (abs_path fi)) yb
      \<and> (case best_date E yb fi of
            None \<Rightarrow> False
          | Some d \<Rightarrow>
              \<not> within_bounds (get_folder_kdin_bounds (cdc E) (parent (abs_path fi)) yb) d))"

text \<open>
  Section 4.3: what the integrity pass may do to a record. A record with any date
  evidence stays as it is; a record with none stays as it is (a damaged date was
  reported) or gets a new path and \<open>kdin\<close>, nothing else.
\<close>

definition integrity_step :: "FileInfo \<Rightarrow> FileInfo \<Rightarrow> bool" where
  "integrity_step fi fi' =
     (if kdin fi \<or> ekdin fi \<or> metadte fi \<or> prpdin fi then fi' = fi
      else fi' = fi \<or> fi' = fi\<lparr>abs_path := abs_path fi', kdin := True\<rparr>)"

text \<open>
  Section 4.2, record by record: a record without a proprietary name is passed over;
  when the canonical target of a proprietary name exists on disk the rename is skipped,
  the record is kept and its path joins the conflicts; otherwise the file is renamed, the
  record takes the new path, \<open>kdin\<close> and no \<open>prpdin\<close>, and the new path joins the
  renamed files. The result is the records, the renamed paths, the conflicts and the
  world, or \<open>None\<close> when a rename raises.
\<close>

fun proprietary_outcome ::
  "'w collab \<Rightarrow> FileInfo list \<Rightarrow> 'w sys
     \<Rightarrow> (FileInfo list \<times> path list \<times> path list \<times> 'w sys) option" where
  "proprietary_outcome E [] s = Some ([], [], [], s)"
| "proprietary_outcome E (fi # rest) s =
     (let target = kdin_from_proprietary_din (cdc E) (abs_path fi) in
      if \<not> prpdin fi then
        map_option (\<lambda>(recs, renamed, conflicts, s'). (fi # recs, renamed, conflicts, s'))
          (proprietary_outcome E rest s)
      else if path_exists (fsys E) target (world s) then
        map_option
          (\<lambda>(recs, renamed, conflicts, s'). (fi # recs, renamed, abs_path fi # conflicts, s'))
          (proprietary_outcome E rest s)
      else
        (case os_rename (fsys E) (abs_path fi) target (world s) of
           (Some e, w') \<Rightarrow> None
         | (None, w') \<Rightarrow>
             map_option
               (\<lambda>(recs, renamed, conflicts, s').
                  (fi\<lparr>abs_path := target, kdin := True, prpdin := False\<rparr> # recs,
                   target # renamed, conflicts, s'))
               (proprietary_outcome E rest
                  (s\<lparr>world := w', trace := trace s @ [Rename (abs_path fi) target]\<rparr>))))"


text \<open>
  The invariant of the stored date: a record whose \<open>metadte\<close> is true has a metadata
  original date of its own, so that a read does not fall back on the value of the class.
\<close>

definition date_stored :: "FileInfo \<Rightarrow> bool" where
  "date_stored fi = (metadte fi \<longrightarrow> metadata_original_date fi \<noteq> None)"


subsection \<open>A small concrete collaborator\<close>

text \<open>
  The properties below hold for every collaborator. To run the model on concrete
  inputs, here is one over a world that holds the paths on disk and the file the Pillow
  engine has loaded. Its conventions are read off the first letter of a file name:
  \<open>K\<close> for a KDIN name, \<open>E\<close> for an EKDIN name, \<open>P\<close> for a proprietary one; a folder
  named \<open>2019\<close> bounds its files to that year. ExifTool is absent, and Pillow reads and
  edits \<open>JPG\<close> files, whose dates are those of \<open>demo_date\<close>.
\<close>

record demo_world =
  disk :: "path list"
  pil_loaded :: path

definition demo_date :: "path \<Rightarrow> datetime option" where
  "demo_date p =
     (if name p = ''K30.jpg'' then Some (mk_datetime 2020 1 1 10 0 30 0)
      else if name p = ''K120.jpg'' then Some (mk_datetime 2020 1 1 10 2 0 0)
      else if name p = ''old.jpg'' then Some (mk_datetime 2018 7 1 12 0 0 0)
      else if name p = ''broken.jpg'' then Some (mk_datetime 1 1 1 0 0 0 0)
      else None)"

definition demo_codec :: codec where
  "demo_codec =
     \<lparr>is_file_kdin = (\<lambda>p yb. take 1 (name p) = ''K''),
      is_file_ekdin = (\<lambda>p yb. take 1 (name p) = ''E''),
      is_proprietary_din = (\<lambda>p yb. take 1 (name p) = ''P''),
      get_file_kdin = (\<lambda>p yb. mk_datetime 2020 1 1 10 0 0 0),
      get_file_ekdin = (\<lambda>p yb. mk_datetime 2021 3 4 0 0 0 0),
      file_clean2trkdin = (\<lambda>p d. joinpath (parent p) (''K'' @ name p)),
      file_ekdin2clean = (\<lambda>p. joinpath (parent p) (drop 1 (name p))),
      file_ekdin2kdin = (\<lambda>p yb. joinpath (parent p) (''K'' @ drop 1 (name p))),
      is_folder_kdin = (\<lambda>f yb. name f = ''2019''),
      get_folder_kdin_bounds =
        (\<lambda>f yb. (mk_datetime 2019 1 1 0 0 0 0, mk_datetime 2019 12 31 23 59 59 999999)),
      kdin_from_proprietary_din = (\<lambda>p. joinpath (parent p) (''K'' @ drop 1 (name p)))\<rparr>"

definition demo_rename :: "path \<Rightarrow> path \<Rightarrow> demo_world \<Rightarrow> exn option \<times> demo_world" where
  "demo_rename src dst w =
     (if src \<in> set (disk w)
      then (None, w\<lparr>disk := map (\<lambda>p. if p = src then dst else p) (disk w)\<rparr>)
      else (Some OSError, w))"

definition demo_filesys :: "demo_world filesys" where
  "demo_filesys =
     \<lparr>get_folders_tree = (\<lambda>base pats w. [base]),
      get_files_tree = (\<lambda>folders w. filter (\<lambda>p. parent p \<in> set folders) (disk w)),
      itername = (\<lambda>p w. if p \<in> set (disk w) then joinpath (parent p) (''_'' @ name p) else p),
      get_file_modify_date = (\<lambda>p w. mk_datetime 2022 5 6 7 8 9 0),
      path_exists = (\<lambda>p w. p \<in> set (disk w)),
      os_rename = demo_rename,
      os_makedirs = (\<lambda>p w. (None, w)),
      shutil_copy2 = (\<lambda>src dst w. (None, w\<lparr>disk := disk w @ [dst]\<rparr>)),
      console_input = (\<lambda>w. (None, w))\<rparr>"

definition demo_probe :: "path \<Rightarrow> demo_world \<Rightarrow> exn + probe" where
  "demo_probe p w =
     (if upper (drop 1 (suffix p)) = ''JPG''
      then Inr \<lparr>has_date_kwd = (demo_date p \<noteq> None),
                probe_date_original =
                  (case demo_date p of None \<Rightarrow> mk_datetime 1 1 1 0 0 0 0 | Some d \<Rightarrow> d),
                probe_date_original_as_str = ''0001:01:01 00:00:00''\<rparr>
      else Inl AssertionError)"

definition demo_engines :: "demo_world engines" where
  "demo_engines =
     \<lparr>exiftool_detected = False,
      pil_READABLE_EXTENSIONS = [''JPG''],
      pil_EDITABLE_EXTENSIONS = [''JPG''],
      exf_readable_extensions = [],
      exf_editable_extensions = [],
      pil_load_file = (\<lambda>p w. (None, w\<lparr>pil_loaded := p\<rparr>)),
      pil_has_date_original = (\<lambda>w. demo_date (pil_loaded w) \<noteq> None),
      pil_get_date_original =
        (\<lambda>w. case demo_date (pil_loaded w) of
                None \<Rightarrow> mk_datetime 1 1 1 0 0 0 0 | Some d \<Rightarrow> d),
      pil_set_date_original = (\<lambda>d w. (None, w)),
      pil_save_file = (\<lambda>w. (None, w)),
      pil_filepath = pil_loaded,
      exf_load_file = (\<lambda>p w. (Some OSError, w)),
      exf_has_metadata_date_original = (\<lambda>w. False),
      exf_get_date_original = (\<lambda>w. mk_datetime 1 1 1 0 0 0 0),
      exf_set_date_original = (\<lambda>d w. (Some OSError, w)),
      exf_save_file = (\<lambda>w. (Some OSError, w)),
      tmp_pil = demo_probe,
      tmp_exf = (\<lambda>p w. Inl OSError)\<rparr>"

definition demo :: "demo_world collab" where
  "demo = \<lparr>cdc = demo_codec, fsys = demo_filesys, eng = demo_engines\<rparr>"

definition demo_analyxer :: "path list \<Rightarrow> demo_world Analyxer" where
  "demo_analyxer files =
     new_Analyxer demo [''d''] [''logs''] [] (1800, 2300) \<lparr>disk = files, pil_loaded = []\<rparr>"

definition demo_sys :: "path list \<Rightarrow> demo_world sys" where
  "demo_sys files = \<lparr>world = \<lparr>disk = files, pil_loaded = []\<rparr>, trace = []\<rparr>"

definition demo_editor :: MetaManager where
  "demo_editor = new_MetaManager demo (1800, 2300) False"



text \<open>An analyser over the files on disk, holding the given records.\<close>

definition demo_state ::
  "demo_world collab \<Rightarrow> path list \<Rightarrow> FileInfo list \<Rightarrow> demo_world Analyxer" where
  "demo_state E files recs =
     (new_Analyxer E [''d''] [''logs''] [] (1800, 2300) \<lparr>disk = files, pil_loaded = []\<rparr>)
       \<lparr>files2analyse := recs\<rparr>"

section \<open>Properties\<close>

lemma and_then_simps:
  "and_then (Inl e) f = Inl e"
  "and_then (Inr x) f = f x"
  by (simp_all add: and_then_def)

lemma and_then_Inr_iff:
  "and_then m f = Inr y \<longleftrightarrow> (\<exists>x. m = Inr x \<and> f x = Inr y)"
  by (cases m) (simp_all add: and_then_def)

subsection \<open>Evaluation\<close>

lemmas demo_defs = demo_def demo_codec_def demo_filesys_def demo_engines_def demo_probe_def
  demo_rename_def demo_date_def demo_analyxer_def new_Analyxer_def new_MetaManager_def

lemmas path_defs = name_def parent_def joinpath_def suffix_def rfind_def upper_def
  upper_char_def Let_def

lemmas scan_defs = load_files2analyse_def log_info_def scan_file_def SKIP_EXTENSIONS_def
  readable_extensions_def editable_extensions_def load_file_def
  has_valid_date_original_def get_date_original_def new_FileInfo_def
  set_metadate_original_def mk_datetime_def

subsection \<open>The loop over the records\<close>

lemma for_records_rel:
  assumes step: "\<And>acc fi fi' acc'. body acc fi = Inr (fi', acc') \<Longrightarrow> R fi fi'"
  shows "for_records body acc recs = Inr (recs', acc') \<Longrightarrow> list_all2 R recs recs'"
proof (induction recs arbitrary: acc recs' acc')
  case Nil
  then show ?case by simp
next
  case (Cons fi rest)
  from Cons.prems obtain fi1 acc1 rest1 acc2 where
    b: "body acc fi = Inr (fi1, acc1)" and
    r: "for_records body acc1 rest = Inr (rest1, acc2)" and
    e: "recs' = fi1 # rest1"
    by (auto simp: and_then_Inr_iff)
  from step [OF b] Cons.IH [OF r] e show ?case by simp
qed

lemma for_records_collect:
  assumes step: "\<And>acc fi. body acc fi = Inr (fi, acc @ g fi)"
  shows "for_records body acc recs = Inr (recs, acc @ concat (map g recs))"
  by (induction recs arbitrary: acc) (simp_all add: step and_then_simps)

lemma parent_joinpath: "parent (joinpath p seg) = p"
  by (simp add: parent_def joinpath_def)

lemma map_parent_reports:
  "map parent (concat (map (\<lambda>fi. if P fi then [joinpath (abs_path fi) (lbl fi)] else []) recs))
     = map abs_path (filter P recs)"
  by (induction recs) (simp_all add: parent_joinpath)

subsection \<open>The scan pass\<close>

lemma split_nonempty: "split c s \<noteq> []"
  by (induction s) (auto split: list.splits)

lemma split_no_sep: "c \<notin> set s \<Longrightarrow> split c s = [s]"
  by (induction s) auto

lemma split_append:
  "split c (xs @ c # ys) = split c xs @ split c ys"
proof (induction xs)
  case Nil
  show ?case by simp
next
  case (Cons x xs)
  obtain s ss where "split c xs = s # ss"
    using split_nonempty [of c xs] by (cases "split c xs") auto
  with Cons show ?case by simp
qed

lemma takeWhile_upto_sep:
  "c \<notin> set ys \<Longrightarrow> takeWhile (\<lambda>x. x \<noteq> c) (ys @ c # zs) = ys"
  by (induction ys) auto

lemma takeWhile_no_sep:
  "c \<notin> set ys \<Longrightarrow> takeWhile (\<lambda>x. x \<noteq> c) ys = ys"
  by (induction ys) auto

text \<open>The last piece of a split is what follows the last separator.\<close>

lemma last_split:
  "last (split c s) = rev (takeWhile (\<lambda>x. x \<noteq> c) (rev s))"
proof (cases "c \<in> set s")
  case False
  then show ?thesis by (simp add: split_no_sep takeWhile_no_sep)
next
  case True
  then have "c \<in> set (rev s)" by simp
  then obtain ys zs where r: "rev s = ys @ c # zs" and n: "c \<notin> set ys"
    by (meson split_list_first)
  have "rev (rev s) = rev (ys @ c # zs)" by (simp only: r)
  then have s: "s = rev zs @ c # rev ys" by simp
  have "takeWhile (\<lambda>x. x \<noteq> c) (rev s) = ys"
    using n unfolding r by (rule takeWhile_upto_sep)
  moreover have "last (split c s) = rev ys"
    unfolding s using n by (simp add: split_append split_nonempty split_no_sep)
  ultimately show ?thesis by simp
qed

lemma upper_char_dot: "upper_char x = CHR ''.'' \<longleftrightarrow> x = CHR ''.''"
  by (simp add: upper_char_def)

lemma upper_takeWhile:
  "takeWhile (\<lambda>x. x \<noteq> CHR ''.'') (map upper_char s)
     = map upper_char (takeWhile (\<lambda>x. x \<noteq> CHR ''.'') s)"
  by (induction s) (simp_all add: upper_char_dot)

lemma last_segment_upper:
  "last (split (CHR ''.'') (upper s)) = upper (rev (takeWhile (\<lambda>x. x \<noteq> CHR ''.'') (rev s)))"
  by (simp add: last_split upper_def rev_map upper_takeWhile)

text \<open>A suffix, when there is one, is the dot and what follows the last dot of the name.\<close>

lemma suffix_ext:
  assumes "suffix p \<noteq> []"
  shows "drop 1 (suffix p) = rev (takeWhile (\<lambda>x. x \<noteq> CHR ''.'') (rev (name p)))"
proof -
  let ?n = "name p"
  let ?t = "takeWhile (\<lambda>x. x \<noteq> CHR ''.'') (rev ?n)"
  from assms have d: "CHR ''.'' \<in> set ?n"
    by (auto simp: suffix_def Let_def rfind_def split: if_splits)
  then have "CHR ''.'' \<in> set (rev ?n)" by simp
  then obtain ys zs where r: "rev ?n = ys @ CHR ''.'' # zs" and n: "CHR ''.'' \<notin> set ys"
    by (meson split_list_first)
  have t: "?t = ys" using n unfolding r by (rule takeWhile_upto_sep)
  have "rev (rev ?n) = rev (ys @ CHR ''.'' # zs)" by (simp only: r)
  then have s: "?n = rev zs @ CHR ''.'' # rev ys" by simp
  have len: "length ?n = length zs + 1 + length ys"
    by (subst s) simp
  have i: "rfind ?n (CHR ''.'') = int (length zs)"
    using d by (simp add: rfind_def t len)
  from assms have "suffix p = drop (length zs) ?n"
    by (auto simp: suffix_def Let_def i split: if_splits)
  also have "\<dots> = CHR ''.'' # rev ys" by (subst s) simp
  finally show ?thesis by (simp add: t)
qed

lemma empty_not_skipped: "[] \<notin> set SKIP_EXTENSIONS"
  by (simp add: SKIP_EXTENSIONS_def)

lemma skip_file_last_segment:
  "skip_file f \<longleftrightarrow> last (split (CHR ''.'') (upper (name f))) \<in> set SKIP_EXTENSIONS"
proof (cases "suffix f = []")
  case True
  then show ?thesis by (simp add: skip_file_def upper_def empty_not_skipped)
next
  case False
  from suffix_ext [OF False] show ?thesis
    by (simp add: skip_file_def last_segment_upper)
qed

lemma skip_file_suffix:
  "suffix f \<noteq> [] \<Longrightarrow>
     skip_file f \<longleftrightarrow> upper (drop 1 (suffix f)) \<in> set SKIP_EXTENSIONS"
  using suffix_ext [of f] by (simp add: skip_file_def last_segment_upper)

lemma scan_file_skip: "skip_file f \<Longrightarrow> scan_file E self f = Inr self"
  by (auto simp: scan_file_def skip_file_def)

lemma scan_file_keep:
  assumes "\<not> skip_file f" and "scan_file E self f = Inr self'"
  shows "\<exists>fi. files2analyse self' = files2analyse self @ [fi] \<and> abs_path fi = f"
  using assms
  by (auto simp: scan_file_def skip_file_def Let_def and_then_Inr_iff new_FileInfo_def
        set_metadate_original_def split: if_splits)

lemma scan_files_paths:
  "scan_files E self files = Inr self' \<Longrightarrow>
     map abs_path (files2analyse self')
       = map abs_path (files2analyse self) @ filter (\<lambda>f. \<not> skip_file f) files"
proof (induction files arbitrary: self)
  case Nil
  then show ?case by simp
next
  case (Cons f files)
  from Cons.prems obtain self1 where
    a: "scan_file E self f = Inr self1" and b: "scan_files E self1 files = Inr self'"
    by (auto simp: and_then_Inr_iff)
  show ?case
  proof (cases "skip_file f")
    case True
    with a have "self1 = self" by (simp add: scan_file_skip)
    with Cons.IH [OF b] True show ?thesis by simp
  next
    case False
    from scan_file_keep [OF False a] obtain fi where
      "files2analyse self1 = files2analyse self @ [fi]" "abs_path fi = f" by blast
    with Cons.IH [OF b] False show ?thesis by simp
  qed
qed

lemma scan_file_unreadable:
  assumes "\<not> skip_file f"
    and "upper (drop 1 (suffix f)) \<notin> set (readable_extensions E (metadata_editor self))"
  shows "scan_file E self f =
           Inr (self\<lparr>files2analyse := files2analyse self @
                  [new_FileInfo (is_file_kdin (cdc E) f (year_bounds self))
                     (is_file_ekdin (cdc E) f (year_bounds self))
                     (is_proprietary_din (cdc E) f (year_bounds self))
                     False False
                     (upper (drop 1 (suffix f))
                        \<in> set (editable_extensions E (metadata_editor self)))
                     f]\<rparr>)"
  using assms
  by (simp add: scan_file_def skip_file_def Let_def and_then_simps)

lemma load_files2analyse_paths:
  assumes "load_files2analyse E self = Inr self'"
  shows "map abs_path (files2analyse self')
           = map abs_path (files2analyse self)
             @ filter (\<lambda>f. \<not> skip_file f)
                 (get_files_tree (fsys E)
                    (get_folders_tree (fsys E) (base_path2scan self) (fld_patterns self)
                       (world (sys self)))
                    (world (sys self)))"
  using scan_files_paths [of E _ _ self'] assms
  by (simp add: load_files2analyse_def Let_def log_info_def)

text \<open>
  C1, as the code has it. A visited file is left out exactly when the last
  dot-separated piece of its upper-cased name is in the skip set (the test on the suffix
  adds nothing). For a file that has a suffix this is the match of its extension,
  whatever the case of the letters; a file without a suffix is left out when its whole
  name, or what follows its leading dot, is a word of the skip set. The records the scan
  adds are those of the files not left out, in order, and a file that is not left out
  and whose extension the gateway does not read always gets its record.
\<close>

theorem scan_skips_by_last_segment:
  "(skip_file f \<longleftrightarrow> last (split (CHR ''.'') (upper (name f))) \<in> set SKIP_EXTENSIONS)
   \<and> (suffix f \<noteq> [] \<longrightarrow>
        (skip_file f \<longleftrightarrow> upper (drop 1 (suffix f)) \<in> set SKIP_EXTENSIONS))
   \<and> (skip_file f \<longrightarrow> scan_file E self f = Inr self)
   \<and> (load_files2analyse E self = Inr self' \<longrightarrow>
        map abs_path (files2analyse self')
          = map abs_path (files2analyse self)
            @ filter (\<lambda>f. \<not> skip_file f)
                (get_files_tree (fsys E)
                   (get_folders_tree (fsys E) (base_path2scan self) (fld_patterns self)
                      (world (sys self)))
                   (world (sys self))))
   \<and> (\<not> skip_file f
        \<and> upper (drop 1 (suffix f)) \<notin> set (readable_extensions E (metadata_editor self)) \<longrightarrow>
        (\<exists>fi. scan_file E self f = Inr (self\<lparr>files2analyse := files2analyse self @ [fi]\<rparr>)
              \<and> abs_path fi = f))"
proof (intro conjI impI)
  show "skip_file f \<longleftrightarrow> last (split (CHR ''.'') (upper (name f))) \<in> set SKIP_EXTENSIONS"
    by (rule skip_file_last_segment)
next
  assume "suffix f \<noteq> []"
  then show "skip_file f \<longleftrightarrow> upper (drop 1 (suffix f)) \<in> set SKIP_EXTENSIONS"
    by (rule skip_file_suffix)
next
  assume "skip_file f"
  then show "scan_file E self f = Inr self" by (rule scan_file_skip)
next
  assume "load_files2analyse E self = Inr self'"
  then show "map abs_path (files2analyse self')
          = map abs_path (files2analyse self)
            @ filter (\<lambda>f. \<not> skip_file f)
                (get_files_tree (fsys E)
                   (get_folders_tree (fsys E) (base_path2scan self) (fld_patterns self)
                      (world (sys self)))
                   (world (sys self)))"
    by (rule load_files2analyse_paths)
next
  let ?fi = "new_FileInfo (is_file_kdin (cdc E) f (year_bounds self))
                (is_file_ekdin (cdc E) f (year_bounds self))
                (is_proprietary_din (cdc E) f (year_bounds self))
                False False
                (upper (drop 1 (suffix f)) \<in> set (editable_extensions E (metadata_editor self)))
                f"
  assume a: "\<not> skip_file f
    \<and> upper (drop 1 (suffix f)) \<notin> set (readable_extensions E (metadata_editor self))"
  show "\<exists>fi. scan_file E self f = Inr (self\<lparr>files2analyse := files2analyse self @ [fi]\<rparr>)
              \<and> abs_path fi = f"
  proof (intro exI conjI)
    from a show "scan_file E self f = Inr (self\<lparr>files2analyse := files2analyse self @ [?fi]\<rparr>)"
      by (simp add: scan_file_unreadable)
    show "abs_path ?fi = f" by (simp add: new_FileInfo_def)
  qed
qed

lemma demo_scan_runs:
  "\<exists>a. load_files2analyse demo
         (demo_analyxer [[''d'', ''x.PdF''], [''d'', ''a.jpg''], [''d'', ''noext'']]) = Inr a"
  by (simp add: demo_defs scan_defs path_defs and_then_simps)

theorem scan_skips_by_last_segment_witness:
  "skip_file [''d'', ''x.PdF'']
   \<and> suffix [''d'', ''x.PdF''] = ''.PdF''
   \<and> \<not> skip_file [''d'', ''noext'']
   \<and> map_sum id (\<lambda>a. map abs_path (files2analyse a))
        (load_files2analyse demo
           (demo_analyxer [[''d'', ''x.PdF''], [''d'', ''a.jpg''], [''d'', ''noext'']]))
      = Inr [[''d'', ''a.jpg''], [''d'', ''noext'']]
   \<and> map_sum id (\<lambda>a. map abs_path (files2analyse a))
        (scan_file demo (demo_analyxer []) [''d'', ''noext''])
      = Inr [[''d'', ''noext'']]"
proof -
  let ?files = "[[''d'', ''x.PdF''], [''d'', ''a.jpg''], [''d'', ''noext'']]"
  obtain a where run: "load_files2analyse demo (demo_analyxer ?files) = Inr a"
    using demo_scan_runs by blast
  have sfx: "suffix [''d'', ''x.PdF''] = ''.PdF''"
    by (simp add: path_defs)
  have s1: "skip_file [''d'', ''x.PdF'']"
    using scan_skips_by_last_segment [of "[''d'', ''x.PdF'']" demo "demo_analyxer ?files" a] sfx
    by (simp add: path_defs SKIP_EXTENSIONS_def)
  have s2: "\<not> skip_file [''d'', ''a.jpg'']"
    by (simp add: skip_file_def path_defs SKIP_EXTENSIONS_def)
  have s3: "\<not> skip_file [''d'', ''noext'']"
    by (simp add: skip_file_def path_defs SKIP_EXTENSIONS_def)
  have "map abs_path (files2analyse a) = [[''d'', ''a.jpg''], [''d'', ''noext'']]"
    using scan_skips_by_last_segment [of "[''d'', ''x.PdF'']" demo "demo_analyxer ?files" a]
      run s1 s2 s3
    by (simp add: demo_defs parent_def)
  then have r: "map_sum id (\<lambda>a. map abs_path (files2analyse a))
        (load_files2analyse demo (demo_analyxer ?files))
      = Inr [[''d'', ''a.jpg''], [''d'', ''noext'']]"
    by (simp add: run)
  have nr: "upper (drop 1 (suffix [''d'', ''noext'']))
              \<notin> set (readable_extensions demo (metadata_editor (demo_analyxer [])))"
    by (simp add: path_defs readable_extensions_def demo_defs)
  from scan_skips_by_last_segment [of "[''d'', ''noext'']" demo "demo_analyxer []" a] s3 nr
  obtain fi where
    "scan_file demo (demo_analyxer []) [''d'', ''noext'']
       = Inr ((demo_analyxer [])\<lparr>files2analyse := files2analyse (demo_analyxer []) @ [fi]\<rparr>)"
    "abs_path fi = [''d'', ''noext'']"
    by blast
  then have u: "map_sum id (\<lambda>a. map abs_path (files2analyse a))
        (scan_file demo (demo_analyxer []) [''d'', ''noext''])
      = Inr [[''d'', ''noext'']]"
    by (simp add: demo_defs)
  from s1 sfx s3 r u show ?thesis by blast
qed

lemma suffix_pdf: "suffix [''d'', ''pdf''] = []"
  by (simp add: path_defs)

lemma suffix_dsstore: "suffix [''d'', ''.DS_Store''] = []"
  by (simp add: path_defs)

lemma skip_pdf: "skip_file [''d'', ''pdf'']"
  by (simp add: skip_file_def path_defs SKIP_EXTENSIONS_def)

lemma skip_dsstore: "skip_file [''d'', ''.DS_Store'']"
  by (simp add: skip_file_def path_defs SKIP_EXTENSIONS_def)

text \<open>
  C1 as stated fails: \<open>pdf\<close> and \<open>.DS_Store\<close> have no extension, and the scan leaves both
  out of the record store.
\<close>

theorem scan_skips_extensionless_counterexample:
  "suffix [''d'', ''pdf''] = [] \<and> suffix [''d'', ''.DS_Store''] = []
   \<and> map_sum id files2analyse
        (load_files2analyse demo (demo_analyxer [[''d'', ''pdf''], [''d'', ''.DS_Store'']]))
      = Inr []"
  by (simp add: suffix_pdf suffix_dsstore load_files2analyse_def demo_defs log_info_def
        scan_file_skip skip_pdf skip_dsstore and_then_simps parent_def)

subsection \<open>The two passes that only read\<close>

lemma consistency_body_eq:
  "consistency_body E yb m acc fi =
     Inr (fi, acc @ (if inconsistent_dates E yb m fi
                     then [joinpath (abs_path fi) (str_datetime (attr_metadata_original_date fi))]
                     else []))"
  by (simp add: consistency_body_def inconsistent_dates_def get_metadate_original_def
        and_then_simps Let_def)

lemma consistency_pass_eq:
  "analyse_files_date_consistency E margin_secs self =
     Inr (map abs_path
            (filter (inconsistent_dates E (year_bounds self) margin_secs) (files2analyse self)),
          self\<lparr>sys := log_info
            ''[ALX] <NewModulePhase> Scanning file Metadates and KDIN consistency...''
            (sys self)\<rparr>)"
proof -
  have "for_records (consistency_body E (year_bounds self) margin_secs) [] (files2analyse self)
        = Inr (files2analyse self,
               [] @ concat (map (\<lambda>fi. if inconsistent_dates E (year_bounds self) margin_secs fi
                     then [joinpath (abs_path fi) (str_datetime (attr_metadata_original_date fi))]
                     else []) (files2analyse self)))"
    by (rule for_records_collect) (rule consistency_body_eq)
  then show ?thesis
    by (simp add: analyse_files_date_consistency_def Let_def and_then_simps map_parent_reports)
qed

text \<open>
  C4, as the code has it. The pass never raises. It returns the path of every record
  that has a KDIN and a valid metadata date more than the margin apart, in order: the
  path of the file itself, which is the parent of the path the loop builds by joining
  the text of the date to it. The records and the world are as before; the trace has
  gained the line that announces the pass. With the margin of 60 seconds, 30 seconds
  are within the margin and 120 seconds are beyond it.
\<close>

theorem consistency_reports_file_paths:
  "analyse_files_date_consistency E margin_secs self =
     Inr (map abs_path
            (filter (inconsistent_dates E (year_bounds self) margin_secs) (files2analyse self)),
          self\<lparr>sys := log_info
            ''[ALX] <NewModulePhase> Scanning file Metadates and KDIN consistency...''
            (sys self)\<rparr>)
   \<and> \<not> exceeds_margin
         (dt_sub (mk_datetime 2020 1 1 10 0 30 0) (mk_datetime 2020 1 1 10 0 0 0)) 60
   \<and> exceeds_margin
         (dt_sub (mk_datetime 2020 1 1 10 2 0 0) (mk_datetime 2020 1 1 10 0 0 0)) 60"
proof -
  have "\<not> exceeds_margin
         (dt_sub (mk_datetime 2020 1 1 10 0 30 0) (mk_datetime 2020 1 1 10 0 0 0)) 60"
    by (simp add: exceeds_margin_def dt_sub_def mk_datetime_def toordinal_def)
  moreover have "exceeds_margin
         (dt_sub (mk_datetime 2020 1 1 10 2 0 0) (mk_datetime 2020 1 1 10 0 0 0)) 60"
    by (simp add: exceeds_margin_def dt_sub_def mk_datetime_def toordinal_def)
  ultimately show ?thesis using consistency_pass_eq [of E margin_secs self] by blast
qed

lemma demo_scan_K120:
  "load_files2analyse demo (demo_analyxer [[''d'', ''K120.jpg'']]) =
     Inr ((demo_analyxer [[''d'', ''K120.jpg'']])
       \<lparr>metadata_editor :=
          (metadata_editor (demo_analyxer [[''d'', ''K120.jpg'']]))
            \<lparr>mm_filepath := Some [''d'', ''K120.jpg'']\<rparr>,
        sys := \<lparr>world = \<lparr>disk = [[''d'', ''K120.jpg'']], pil_loaded = [''d'', ''K120.jpg'']\<rparr>,
                trace = [LogInfo ''[ALX] <NewModulePhase> Scanning files in path...'',
                         PilLoad [''d'', ''K120.jpg'']]\<rparr>,
        files2analyse :=
          [\<lparr>kdin = True, ekdin = False, prpdin = False, metadte = True,
            readable = True, editable = True, abs_path = [''d'', ''K120.jpg''],
            metadata_original_date = Some (mk_datetime 2020 1 1 10 2 0 0)\<rparr>]\<rparr>)"
  by (simp add: demo_defs scan_defs path_defs and_then_simps)

text \<open>
  C4 as stated fails: for the file \<open>d/K120.jpg\<close>, whose metadata date is 120 seconds
  after its KDIN date, the pass returns the path of the file, not its folder \<open>d\<close>.
\<close>

theorem consistency_reports_folder_counterexample:
  "map_sum id fst
     (and_then (load_files2analyse demo (demo_analyxer [[''d'', ''K120.jpg'']]))
        (analyse_files_date_consistency demo 60))
     = Inr [[''d'', ''K120.jpg'']]
   \<and> parent [''d'', ''K120.jpg''] = [''d'']"
  by (simp only: demo_scan_K120 and_then_simps consistency_pass_eq)
     (simp add: inconsistent_dates_def attr_metadata_original_date_def exceeds_margin_def
        dt_sub_def toordinal_def days_before_year_def days_before_month_def is_leap_def
        mk_datetime_def demo_defs parent_def)

lemma bounds_body_eq:
  "bounds_body E yb acc fi =
     Inr (fi, acc @ (if out_of_folder_bounds E yb fi
                     then [joinpath (abs_path fi) (str_datetime (the (best_date E yb fi)))]
                     else []))"
  by (simp add: bounds_body_def out_of_folder_bounds_def best_date_def best_date_source_def
        within_bounds_def get_metadate_original_def and_then_simps Let_def)

lemma bounds_pass_eq:
  "detect_files_out_of_folder_date_bounds E self =
     Inr (map abs_path
            (filter (out_of_folder_bounds E (year_bounds self)) (files2analyse self)),
          self\<lparr>sys := log_info
            ''[ALX] <NewModulePhase> Checking file-dates out of folder-bounds...''
            (sys self)\<rparr>)"
proof -
  have "for_records (bounds_body E (year_bounds self)) [] (files2analyse self)
        = Inr (files2analyse self,
               [] @ concat (map (\<lambda>fi. if out_of_folder_bounds E (year_bounds self) fi
                     then [joinpath (abs_path fi)
                             (str_datetime (the (best_date E (year_bounds self) fi)))]
                     else []) (files2analyse self)))"
    by (rule for_records_collect) (rule bounds_body_eq)
  then show ?thesis
    by (simp add: detect_files_out_of_folder_date_bounds_def Let_def and_then_simps
          map_parent_reports)
qed

text \<open>
  C5. The pass never raises. It returns the path of every record whose folder encodes
  bounds and whose best date (the KDIN date, else the EKDIN date, else the metadata date
  of a readable record with a valid one) lies outside the closed interval, in order; a
  record with no such date is not reported. The records and the world are as before.
  With the bounds of the year 2019, the first of June 2020 is outside and the first of
  June 2019 is inside.
\<close>

theorem bounds_reports_best_date:
  "detect_files_out_of_folder_date_bounds E self =
     Inr (map abs_path
            (filter (out_of_folder_bounds E (year_bounds self)) (files2analyse self)),
          self\<lparr>sys := log_info
            ''[ALX] <NewModulePhase> Checking file-dates out of folder-bounds...''
            (sys self)\<rparr>)
   \<and> \<not> within_bounds (mk_datetime 2019 1 1 0 0 0 0, mk_datetime 2019 12 31 0 0 0 0)
         (mk_datetime 2020 6 1 0 0 0 0)
   \<and> within_bounds (mk_datetime 2019 1 1 0 0 0 0, mk_datetime 2019 12 31 0 0 0 0)
         (mk_datetime 2019 6 1 0 0 0 0)"
proof -
  have "\<not> within_bounds (mk_datetime 2019 1 1 0 0 0 0, mk_datetime 2019 12 31 0 0 0 0)
         (mk_datetime 2020 6 1 0 0 0 0)"
    by (simp add: within_bounds_def dt_le_def dt_fields_def mk_datetime_def)
  moreover have "within_bounds (mk_datetime 2019 1 1 0 0 0 0, mk_datetime 2019 12 31 0 0 0 0)
         (mk_datetime 2019 6 1 0 0 0 0)"
    by (simp add: within_bounds_def dt_le_def dt_fields_def mk_datetime_def)
  ultimately show ?thesis using bounds_pass_eq [of E self] by blast
qed

subsection \<open>The integrity pass\<close>

lemma effect_Inr:
  "effect ev f s = Inr s' \<longleftrightarrow> (\<exists>w'. f (world s) = (None, w') \<and> s' = s\<lparr>world := w', trace := trace s @ [ev]\<rparr>)"
  by (auto simp: effect_def split: prod.splits option.splits)

lemma effect_ok:
  "f (world s) = (None, w') \<Longrightarrow> effect ev f s = Inr (s\<lparr>world := w', trace := trace s @ [ev]\<rparr>)"
  by (simp add: effect_def)

lemma name_neq: "name a \<noteq> name b \<Longrightarrow> a \<noteq> b"
  by auto





lemma integrity_body_step:
  "integrity_body E mm acc fi = Inr (fi', acc') \<Longrightarrow> integrity_step fi fi'"
  by (cases acc)
     (auto simp: integrity_body_def integrity_step_def and_then_Inr_iff Let_def
           split: if_splits option.splits)

lemma integrity_pass_steps:
  assumes "analyse_files_date_integrity E self = Inr (warns, self')"
  shows "list_all2 integrity_step (files2analyse self) (files2analyse self')"
proof -
  from assms obtain acc0 recs acc' where
    f: "for_records (integrity_body E (metadata_editor self)) acc0 (files2analyse self)
          = Inr (recs, acc')" and
    r: "files2analyse self' = recs"
    by (auto simp: analyse_files_date_integrity_def Let_def and_then_Inr_iff)
  show ?thesis unfolding r
    by (rule for_records_rel [OF _ f]) (rule integrity_body_step)
qed

lemmas demo_defs2 = demo_defs demo_sys_def demo_editor_def







subsection \<open>The proprietary-rename pass\<close>

lemma proprietary_body_other:
  "\<not> prpdin fi \<Longrightarrow> proprietary_body E (ren, ex, s) fi = Inr (fi, ren, ex, s)"
  by (simp add: proprietary_body_def)

lemma proprietary_body_exists:
  assumes "prpdin fi"
    and "path_exists (fsys E) (kdin_from_proprietary_din (cdc E) (abs_path fi)) (world s)"
  shows "proprietary_body E (ren, ex, s) fi = Inr (fi, ren, ex @ [abs_path fi], s)"
  using assms
  by (simp add: proprietary_body_def update_proprietary_din_def
        rename_proprietary_din_file_def and_then_simps Let_def)

lemma proprietary_body_renames:
  assumes "prpdin fi"
    and "\<not> path_exists (fsys E) (kdin_from_proprietary_din (cdc E) (abs_path fi)) (world s)"
    and "name (kdin_from_proprietary_din (cdc E) (abs_path fi)) \<noteq> name (abs_path fi)"
    and "os_rename (fsys E) (abs_path fi) (kdin_from_proprietary_din (cdc E) (abs_path fi))
           (world s) = (None, w')"
  shows "proprietary_body E (ren, ex, s) fi
           = Inr (fi\<lparr>abs_path := kdin_from_proprietary_din (cdc E) (abs_path fi),
                     prpdin := False, kdin := True\<rparr>,
                  ren @ [kdin_from_proprietary_din (cdc E) (abs_path fi)], ex,
                  s\<lparr>world := w',
                    trace := trace s @ [Rename (abs_path fi)
                      (kdin_from_proprietary_din (cdc E) (abs_path fi))]\<rparr>)"
  using assms name_neq [OF assms(3)]
  by (simp add: proprietary_body_def update_proprietary_din_def
        rename_proprietary_din_file_def and_then_simps Let_def effect_ok)


lemma proprietary_body_raises:
  assumes "prpdin fi"
    and "\<not> path_exists (fsys E) (kdin_from_proprietary_din (cdc E) (abs_path fi)) (world s)"
    and "os_rename (fsys E) (abs_path fi) (kdin_from_proprietary_din (cdc E) (abs_path fi))
           (world s) = (Some e, w')"
  shows "proprietary_body E (ren, ex, s) fi = Inl e"
  using assms
  by (simp add: proprietary_body_def update_proprietary_din_def
        rename_proprietary_din_file_def and_then_simps Let_def effect_def)

lemma for_records_Cons_Inr:
  assumes "body acc fi = Inr (fi1, acc1)"
  shows "for_records body acc (fi # rest) = Inr (recs', acc')
         \<longleftrightarrow> (\<exists>rest'. for_records body acc1 rest = Inr (rest', acc') \<and> recs' = fi1 # rest')"
  using assms by (auto simp: and_then_Inr_iff)

lemma for_records_Cons_Inl:
  assumes "body acc fi = Inl e"
  shows "for_records body acc (fi # rest) = Inl e"
  using assms by (simp add: and_then_simps)

lemma proprietary_loop_outcome:
  assumes "list_all (\<lambda>fi. prpdin fi \<longrightarrow>
              name (kdin_from_proprietary_din (cdc E) (abs_path fi)) \<noteq> name (abs_path fi)) recs"
  shows "for_records (proprietary_body E) (ren, ex, s) recs = Inr (recs', ren', ex', s')
         \<longleftrightarrow> (\<exists>r e. proprietary_outcome E recs s = Some (recs', r, e, s')
                    \<and> ren' = ren @ r \<and> ex' = ex @ e)"
  using assms
proof (induction recs arbitrary: ren ex s recs' ren' ex' s')
  case Nil
  then show ?case by auto
next
  case (Cons fi rest)
  from Cons.prems have
    nm: "prpdin fi \<Longrightarrow>
           name (kdin_from_proprietary_din (cdc E) (abs_path fi)) \<noteq> name (abs_path fi)" and
    rs: "list_all (\<lambda>fi. prpdin fi \<longrightarrow>
              name (kdin_from_proprietary_din (cdc E) (abs_path fi)) \<noteq> name (abs_path fi)) rest"
    by simp_all
  note IH = Cons.IH [OF rs]
  let ?target = "kdin_from_proprietary_din (cdc E) (abs_path fi)"
  show ?case
  proof (cases "prpdin fi")
    case False
    from proprietary_body_other [OF False]
    have b: "proprietary_body E (ren, ex, s) fi = Inr (fi, ren, ex, s)" .
    show ?thesis
      unfolding for_records_Cons_Inr [where body = "proprietary_body E", OF b] using False
      by (auto simp: IH Let_def)
  next
    case True
    show ?thesis
    proof (cases "path_exists (fsys E) ?target (world s)")
      case ex: True
      from proprietary_body_exists [OF True ex]
      have b: "proprietary_body E (ren, ex, s) fi = Inr (fi, ren, ex @ [abs_path fi], s)" .
      show ?thesis
        unfolding for_records_Cons_Inr [where body = "proprietary_body E", OF b] using True ex
        by (auto simp: IH Let_def)
    next
      case nex: False
      obtain r w' where o: "os_rename (fsys E) (abs_path fi) ?target (world s) = (r, w')"
        by (cases "os_rename (fsys E) (abs_path fi) ?target (world s)")
      show ?thesis
      proof (cases r)
        case None
        from proprietary_body_renames [OF True nex nm [OF True] o [unfolded None]]
        have b: "proprietary_body E (ren, ex, s) fi
           = Inr (fi\<lparr>abs_path := ?target, prpdin := False, kdin := True\<rparr>,
                  ren @ [?target], ex,
                  s\<lparr>world := w', trace := trace s @ [Rename (abs_path fi) ?target]\<rparr>)" .
        show ?thesis
          unfolding for_records_Cons_Inr [where body = "proprietary_body E", OF b]
          using True nex o None
          by (auto simp: IH Let_def)
      next
        case (Some e)
        from proprietary_body_raises [OF True nex o [unfolded Some]]
        have b: "proprietary_body E (ren, ex, s) fi = Inl e" .
        show ?thesis
          unfolding for_records_Cons_Inl [where body = "proprietary_body E", OF b]
          using True nex o Some
          by (simp add: Let_def)
      qed
    qed
  qed
qed

text \<open>
  C6. When the canonical name of every proprietary name differs from it, the pass returns
  exactly when no rename raises on the way, and then it has treated every record, in
  order, as section 4.2 says: a record without a proprietary name is left as it is; for
  a record with one, when the canonical target exists on disk at that moment, nothing is
  renamed, the record is left as it is and its path is in the list of conflicts;
  otherwise the file is renamed to the target, the record takes the new path, \<open>kdin\<close>
  and no \<open>prpdin\<close>, and the new path is in the list of renamed files. The only calls
  that change the world are these renames, each to a target that did not exist.
\<close>

theorem proprietary_pass_never_overwrites:
  assumes "list_all (\<lambda>fi. prpdin fi \<longrightarrow>
              name (kdin_from_proprietary_din (cdc E) (abs_path fi)) \<noteq> name (abs_path fi))
             (files2analyse self)"
  shows "rename_files_with_proprietary_convention E self = Inr ((renamed, conflicts), self')
         \<longleftrightarrow> (\<exists>recs s'.
                proprietary_outcome E (files2analyse self)
                  (log_info
                     ''[ALX] <NewModulePhase> Scanning proprietary date-in-name files to rename...''
                     (sys self))
                  = Some (recs, renamed, conflicts, s')
                \<and> self' = self\<lparr>files2analyse := recs, sys := s'\<rparr>)"
  unfolding rename_files_with_proprietary_convention_def Let_def and_then_Inr_iff
  by (auto simp: proprietary_loop_outcome [OF assms])

lemma demo_proprietary_outcome:
  "proprietary_outcome demo
     [new_FileInfo False False True False True True [''d'', ''P1.jpg''],
      new_FileInfo True False False False True True [''d'', ''K1.jpg''],
      new_FileInfo False False True False True True [''d'', ''P2.jpg'']]
     (log_info
        ''[ALX] <NewModulePhase> Scanning proprietary date-in-name files to rename...''
        \<lparr>world = \<lparr>disk = [[''d'', ''P1.jpg''], [''d'', ''K1.jpg''], [''d'', ''P2.jpg'']],
                   pil_loaded = []\<rparr>,
         trace = []\<rparr>)
   = Some ([new_FileInfo False False True False True True [''d'', ''P1.jpg''],
            new_FileInfo True False False False True True [''d'', ''K1.jpg''],
            new_FileInfo True False False False True True [''d'', ''K2.jpg'']],
           [[''d'', ''K2.jpg'']], [[''d'', ''P1.jpg'']],
           \<lparr>world = \<lparr>disk = [[''d'', ''P1.jpg''], [''d'', ''K1.jpg''], [''d'', ''K2.jpg'']],
                     pil_loaded = []\<rparr>,
            trace = [LogInfo
                       ''[ALX] <NewModulePhase> Scanning proprietary date-in-name files to rename...'',
                     Rename [''d'', ''P2.jpg''] [''d'', ''K2.jpg'']]\<rparr>)"
  by (simp add: demo_defs2 path_defs new_FileInfo_def log_info_def)

theorem proprietary_pass_never_overwrites_witness:
  "rename_files_with_proprietary_convention demo
     (demo_state demo [[''d'', ''P1.jpg''], [''d'', ''K1.jpg''], [''d'', ''P2.jpg'']]
        [new_FileInfo False False True False True True [''d'', ''P1.jpg''],
         new_FileInfo True False False False True True [''d'', ''K1.jpg''],
         new_FileInfo False False True False True True [''d'', ''P2.jpg'']])
   = Inr (([[''d'', ''K2.jpg'']], [[''d'', ''P1.jpg'']]),
          demo_state demo [[''d'', ''P1.jpg''], [''d'', ''K1.jpg''], [''d'', ''P2.jpg'']]
            [new_FileInfo False False True False True True [''d'', ''P1.jpg''],
             new_FileInfo True False False False True True [''d'', ''K1.jpg''],
             new_FileInfo False False True False True True [''d'', ''P2.jpg'']]
          \<lparr>files2analyse :=
             [new_FileInfo False False True False True True [''d'', ''P1.jpg''],
              new_FileInfo True False False False True True [''d'', ''K1.jpg''],
              new_FileInfo True False False False True True [''d'', ''K2.jpg'']],
           sys :=
             \<lparr>world = \<lparr>disk = [[''d'', ''P1.jpg''], [''d'', ''K1.jpg''], [''d'', ''K2.jpg'']],
                       pil_loaded = []\<rparr>,
              trace = [LogInfo
                         ''[ALX] <NewModulePhase> Scanning proprietary date-in-name files to rename...'',
                       Rename [''d'', ''P2.jpg''] [''d'', ''K2.jpg'']]\<rparr>\<rparr>)"
proof -
  let ?recs = "[new_FileInfo False False True False True True [''d'', ''P1.jpg''],
         new_FileInfo True False False False True True [''d'', ''K1.jpg''],
         new_FileInfo False False True False True True [''d'', ''P2.jpg'']]"
  let ?A = "demo_state demo [[''d'', ''P1.jpg''], [''d'', ''K1.jpg''], [''d'', ''P2.jpg'']] ?recs"
  have f: "files2analyse ?A = ?recs" by (simp add: demo_state_def)
  have s: "sys ?A
    = \<lparr>world = \<lparr>disk = [[''d'', ''P1.jpg''], [''d'', ''K1.jpg''], [''d'', ''P2.jpg'']],
                 pil_loaded = []\<rparr>,
       trace = []\<rparr>"
    by (simp add: demo_state_def new_Analyxer_def)
  have h: "list_all (\<lambda>fi. prpdin fi \<longrightarrow>
              name (kdin_from_proprietary_din (cdc demo) (abs_path fi)) \<noteq> name (abs_path fi))
             (files2analyse ?A)"
    unfolding f by (simp add: demo_defs2 path_defs new_FileInfo_def)
  show ?thesis
    using proprietary_pass_never_overwrites [OF h, THEN iffD2] demo_proprietary_outcome
    unfolding f s by blast
qed

subsection \<open>The edit-date migration pass\<close>

lemma effect_trace: "effect ev f s = Inr s' \<Longrightarrow> trace s' = trace s @ [ev]"
  by (auto simp: effect_Inr)


lemma exf_write_trace:
  "exf_write E d s = Inr s' \<Longrightarrow> trace s' = trace s @ [ExfSetDate d, ExfSave]"
  by (auto simp: exf_write_def and_then_Inr_iff effect_Inr)




lemma load_file_event:
  assumes "load_file E mm f s = Inr (mm', s')"
  shows "trace s' = trace s @ [PilLoad f] \<or> trace s' = trace s @ [ExfLoad f]"
  using assms
  by (auto simp: load_file_def load_exiftool_def Let_def and_then_Inr_iff effect_Inr
           split: if_splits prod.splits option.splits exn.splits)

lemma set_date_original_events:
  assumes "set_date_original E mm d s = Inr (mm', s')"
  shows "(trace s' = trace s @ [PilSetDate d, PilSave] \<and> mm_load_id mm' = PILLOW)
         \<or> (trace s' = trace s @ [ExfSetDate d, ExfSave] \<and> mm_load_id mm' = EXIFTOOL)
         \<or> (\<exists>q. trace s' = trace s @ [ExfLoad q, ExfSetDate d, ExfSave]
                  \<and> mm_load_id mm' = EXIFTOOL)"
  using assms
  by (cases "mm_load_id mm")
     (auto simp: set_date_original_def and_then_Inr_iff effect_Inr
           dest!: exf_write_trace split: option.splits if_splits)

lemma save_file_event:
  assumes "save_file E mm s = Inr s'"
  shows "trace s' = trace s @ [if mm_load_id mm = PILLOW then PilSave else ExfSave]"
  using assms by (auto simp: save_file_def effect_Inr split: if_splits)

lemma edit_metadata_order:
  assumes "edit_metadata E yb fo fe mm f s = Inr (new, d, mm', s')"
  shows "d = get_file_ekdin (cdc E) f yb
         \<and> (\<exists>ld wr. trace s' = trace s
               @ [Makedirs fo, Makedirs fe, Copy2 f (joinpath fo (name f))]
               @ [ld] @ wr
               @ [Copy2 f (joinpath fe (name f)), Rename f new]
             \<and> (ld = PilLoad f \<or> ld = ExfLoad f)
             \<and> (wr = [PilSetDate d, PilSave, PilSave]
                 \<or> wr = [ExfSetDate d, ExfSave, ExfSave]
                 \<or> (\<exists>q. wr = [ExfLoad q, ExfSetDate d, ExfSave, ExfSave])))"
proof -
  from assms obtain s1 s2 s3 mm1 s4 mm2 s5 s6 s7 where
    e1: "effect (Makedirs fo) (os_makedirs (fsys E) fo) s = Inr s1" and
    e2: "effect (Makedirs fe) (os_makedirs (fsys E) fe) s1 = Inr s2" and
    e3: "effect (Copy2 f (joinpath fo (name f)))
           (shutil_copy2 (fsys E) f (joinpath fo (name f))) s2 = Inr s3" and
    l: "load_file E mm f s3 = Inr (mm1, s4)" and
    w: "set_date_original E mm1 (get_file_ekdin (cdc E) f yb) s4 = Inr (mm2, s5)" and
    sv: "save_file E mm2 s5 = Inr s6" and
    e7: "effect (Copy2 f (joinpath fe (name f)))
           (shutil_copy2 (fsys E) f (joinpath fe (name f))) s6 = Inr s7" and
    e8: "effect (Rename f new) (os_rename (fsys E) f new) s7 = Inr s'" and
    d: "d = get_file_ekdin (cdc E) f yb"
    by (auto simp: edit_metadata_def and_then_Inr_iff Let_def)
  from load_file_event [OF l] obtain ld where
    tl: "trace s4 = trace s3 @ [ld]" and al: "ld = PilLoad f \<or> ld = ExfLoad f" by blast
  from set_date_original_events [OF w] save_file_event [OF sv] obtain wr where
    tw: "trace s6 = trace s4 @ wr" and
    aw: "wr = [PilSetDate d, PilSave, PilSave]
         \<or> wr = [ExfSetDate d, ExfSave, ExfSave]
         \<or> (\<exists>q. wr = [ExfLoad q, ExfSetDate d, ExfSave, ExfSave])"
    unfolding d by auto
  have "trace s' = trace s
               @ [Makedirs fo, Makedirs fe, Copy2 f (joinpath fo (name f))]
               @ [ld] @ wr
               @ [Copy2 f (joinpath fe (name f)), Rename f new]"
    using effect_trace [OF e1] effect_trace [OF e2] effect_trace [OF e3] tl tw
      effect_trace [OF e7] effect_trace [OF e8]
    by simp
  with al aw d show ?thesis by blast
qed

text \<open>
  C3, as the code has it. For a record with an EKDIN name and editable metadata, a turn
  of the loop that returns has made these calls, in this order and no others: the two
  review folders are made; the file is copied to the folder of originals; a metadata
  engine loads the file; the date decoded from the name is written and the file saved
  (by Pillow, by ExifTool, or by ExifTool after it has loaded the file that Pillow
  cannot edit); the file is saved once more; the file is copied to the folder of edited
  files; the file is renamed. So the copy of the original comes before the write, the
  copy of the edited file comes right after the last save, both copies come before the
  rename, and the rename is the last call. The record then has the new path, \<open>metadte\<close>,
  no \<open>ekdin\<close> and the date stored.
\<close>

theorem edition_order:
  assumes "ekdin fi" and "editable fi"
    and "edition_body E yb fo fe (me, fr, mm, s) fi = Inr (fi', me', fr', mm', s')"
  shows "\<exists>ld wr. trace s' = trace s
           @ [Makedirs fo, Makedirs fe, Copy2 (abs_path fi) (joinpath fo (name (abs_path fi)))]
           @ [ld] @ wr
           @ [Copy2 (abs_path fi) (joinpath fe (name (abs_path fi))),
              Rename (abs_path fi) (abs_path fi')]
         \<and> (ld = PilLoad (abs_path fi) \<or> ld = ExfLoad (abs_path fi))
         \<and> (wr = [PilSetDate (get_file_ekdin (cdc E) (abs_path fi) yb), PilSave, PilSave]
             \<or> wr = [ExfSetDate (get_file_ekdin (cdc E) (abs_path fi) yb), ExfSave, ExfSave]
             \<or> (\<exists>q. wr = [ExfLoad q, ExfSetDate (get_file_ekdin (cdc E) (abs_path fi) yb),
                            ExfSave, ExfSave]))
         \<and> fi' = fi\<lparr>metadte := True, ekdin := False, abs_path := abs_path fi',
                     metadata_original_date :=
                       Some (get_file_ekdin (cdc E) (abs_path fi) yb)\<rparr>
         \<and> me' = me @ [abs_path fi'] \<and> fr' = fr"
proof -
  from assms obtain new d where
    e: "edit_metadata E yb fo fe mm (abs_path fi) s = Inr (new, d, mm', s')" and
    f: "fi' = fi\<lparr>metadte := True, ekdin := False, abs_path := new,
                 metadata_original_date := Some d\<rparr>" and
    l: "me' = me @ [new]" "fr' = fr"
    by (auto simp: edition_body_def and_then_Inr_iff set_metadate_original_def)
  from f have n: "abs_path fi' = new" by simp
  from edit_metadata_order [OF e] have d: "d = get_file_ekdin (cdc E) (abs_path fi) yb"
    by simp
  from edit_metadata_order [OF e] obtain ld wr where
    t: "trace s' = trace s
               @ [Makedirs fo, Makedirs fe,
                  Copy2 (abs_path fi) (joinpath fo (name (abs_path fi)))]
               @ [ld] @ wr
               @ [Copy2 (abs_path fi) (joinpath fe (name (abs_path fi))),
                  Rename (abs_path fi) new]" and
    a: "ld = PilLoad (abs_path fi) \<or> ld = ExfLoad (abs_path fi)" and
    w: "wr = [PilSetDate d, PilSave, PilSave]
         \<or> wr = [ExfSetDate d, ExfSave, ExfSave]
         \<or> (\<exists>q. wr = [ExfLoad q, ExfSetDate d, ExfSave, ExfSave])"
    by blast
  show ?thesis
    apply (rule exI [of _ ld], rule exI [of _ wr])
    using t a w f l n d by simp
qed

lemmas edit_defs = edition_body_def edit_metadata_def effect_def load_file_def
  set_date_original_def save_file_def readable_extensions_def editable_extensions_def
  set_metadate_original_def new_FileInfo_def mk_datetime_def

lemma demo_edition_E1:
  "edition_body demo (1800, 2300) [''r'', ''originals''] [''r'', ''edited'']
     ([], [], demo_editor, demo_sys [[''d'', ''E1.jpg'']])
     (new_FileInfo False True False False True True [''d'', ''E1.jpg''])
   = Inr (\<lparr>kdin = False, ekdin = False, prpdin = False, metadte = True,
           readable = True, editable = True, abs_path = [''d'', ''1.jpg''],
           metadata_original_date = Some (mk_datetime 2021 3 4 0 0 0 0)\<rparr>,
          [[''d'', ''1.jpg'']], [],
          demo_editor\<lparr>mm_filepath := Some [''d'', ''E1.jpg'']\<rparr>,
          \<lparr>world = \<lparr>disk = [[''d'', ''1.jpg''], [''r'', ''originals'', ''E1.jpg''],
                            [''r'', ''edited'', ''E1.jpg'']],
                    pil_loaded = [''d'', ''E1.jpg'']\<rparr>,
           trace = [Makedirs [''r'', ''originals''], Makedirs [''r'', ''edited''],
                    Copy2 [''d'', ''E1.jpg''] [''r'', ''originals'', ''E1.jpg''],
                    PilLoad [''d'', ''E1.jpg''],
                    PilSetDate (mk_datetime 2021 3 4 0 0 0 0), PilSave, PilSave,
                    Copy2 [''d'', ''E1.jpg''] [''r'', ''edited'', ''E1.jpg''],
                    Rename [''d'', ''E1.jpg''] [''d'', ''1.jpg'']]\<rparr>)"
  by (simp add: edit_defs demo_defs2 path_defs and_then_simps)

text \<open>
  On \<open>d/E1.jpg\<close>, which Pillow reads and edits, the engine calls between the two copies
  are the load, the write of the date 2021-03-04, and two saves.
\<close>

theorem edition_order_witness:
  "\<exists>ld wr. map_sum id (trace \<circ> snd \<circ> snd \<circ> snd \<circ> snd)
       (edition_body demo (1800, 2300) [''r'', ''originals''] [''r'', ''edited'']
          ([], [], demo_editor, demo_sys [[''d'', ''E1.jpg'']])
          (new_FileInfo False True False False True True [''d'', ''E1.jpg'']))
     = Inr ([Makedirs [''r'', ''originals''], Makedirs [''r'', ''edited''],
             Copy2 [''d'', ''E1.jpg''] [''r'', ''originals'', ''E1.jpg'']]
            @ [ld] @ wr
            @ [Copy2 [''d'', ''E1.jpg''] [''r'', ''edited'', ''E1.jpg''],
               Rename [''d'', ''E1.jpg''] [''d'', ''1.jpg'']])
     \<and> ld = PilLoad [''d'', ''E1.jpg'']
     \<and> wr = [PilSetDate (mk_datetime 2021 3 4 0 0 0 0), PilSave, PilSave]"
proof -
  have h1: "ekdin (new_FileInfo False True False False True True [''d'', ''E1.jpg''])"
    by (simp add: new_FileInfo_def)
  have h2: "editable (new_FileInfo False True False False True True [''d'', ''E1.jpg''])"
    by (simp add: new_FileInfo_def)
  from edition_order [OF h1 h2 demo_edition_E1] obtain ld wr where
    t: "trace \<lparr>world = \<lparr>disk = [[''d'', ''1.jpg''], [''r'', ''originals'', ''E1.jpg''],
                            [''r'', ''edited'', ''E1.jpg'']],
                    pil_loaded = [''d'', ''E1.jpg'']\<rparr>,
           trace = [Makedirs [''r'', ''originals''], Makedirs [''r'', ''edited''],
                    Copy2 [''d'', ''E1.jpg''] [''r'', ''originals'', ''E1.jpg''],
                    PilLoad [''d'', ''E1.jpg''],
                    PilSetDate (mk_datetime 2021 3 4 0 0 0 0), PilSave, PilSave,
                    Copy2 [''d'', ''E1.jpg''] [''r'', ''edited'', ''E1.jpg''],
                    Rename [''d'', ''E1.jpg''] [''d'', ''1.jpg'']]\<rparr>
        = trace (demo_sys [[''d'', ''E1.jpg'']])
           @ [Makedirs [''r'', ''originals''], Makedirs [''r'', ''edited''],
              Copy2 (abs_path (new_FileInfo False True False False True True [''d'', ''E1.jpg'']))
                (joinpath [''r'', ''originals'']
                   (name (abs_path (new_FileInfo False True False False True True
                                      [''d'', ''E1.jpg'']))))]
           @ [ld] @ wr
           @ [Copy2 (abs_path (new_FileInfo False True False False True True [''d'', ''E1.jpg'']))
                (joinpath [''r'', ''edited'']
                   (name (abs_path (new_FileInfo False True False False True True
                                      [''d'', ''E1.jpg''])))),
              Rename (abs_path (new_FileInfo False True False False True True [''d'', ''E1.jpg'']))
                [''d'', ''1.jpg'']]"
    by auto
  from t have ld: "ld = PilLoad [''d'', ''E1.jpg'']"
    and wr: "wr = [PilSetDate (mk_datetime 2021 3 4 0 0 0 0), PilSave, PilSave]"
    by (simp_all add: demo_defs2 new_FileInfo_def path_defs)
  show ?thesis
    by (rule exI [of _ ld], rule exI [of _ wr]) (simp add: demo_edition_E1 ld wr)
qed

text \<open>
  C3 as stated fails: on \<open>d/E1.jpg\<close> the date is written (and saved) before the copy to
  the folder of edited files is made.
\<close>

theorem edited_copy_after_write_counterexample:
  "map_sum id (trace \<circ> snd \<circ> snd \<circ> snd \<circ> snd)
     (edition_body demo (1800, 2300) [''r'', ''originals''] [''r'', ''edited'']
        ([], [], demo_editor, demo_sys [[''d'', ''E1.jpg'']])
        (new_FileInfo False True False False True True [''d'', ''E1.jpg'']))
   = Inr [Makedirs [''r'', ''originals''], Makedirs [''r'', ''edited''],
          Copy2 [''d'', ''E1.jpg''] [''r'', ''originals'', ''E1.jpg''],
          PilLoad [''d'', ''E1.jpg''],
          PilSetDate (mk_datetime 2021 3 4 0 0 0 0), PilSave, PilSave,
          Copy2 [''d'', ''E1.jpg''] [''r'', ''edited'', ''E1.jpg''],
          Rename [''d'', ''E1.jpg''] [''d'', ''1.jpg'']]"
  by (simp only: demo_edition_E1) simp

subsection \<open>The passes in sequence\<close>


lemma list_all2_preserves:
  "list_all2 (\<lambda>a b. P a \<longrightarrow> P b) xs ys \<Longrightarrow> list_all P xs \<Longrightarrow> list_all P ys"
  by (induction rule: list_all2_induct) auto

text \<open>The passes, opened up.\<close>

lemma proprietary_pass_loop:
  assumes "rename_files_with_proprietary_convention E self = Inr (both, self')"
  shows "\<exists>ren ex.
           for_records (proprietary_body E)
             ([], [], log_info
                ''[ALX] <NewModulePhase> Scanning proprietary date-in-name files to rename...''
                (sys self))
             (files2analyse self) = Inr (files2analyse self', ren, ex, sys self')
           \<and> both = (ren, ex)"
  using assms
  by (auto simp: rename_files_with_proprietary_convention_def Let_def and_then_Inr_iff)


lemma edition_pass_loop:
  assumes "write_date_to_files_with_edition_kdin E self = Inr (warns, self')"
  shows "\<exists>fo fe me fr.
           for_records (edition_body E (year_bounds self) fo fe)
             ([], [], metadata_editor self,
              log_info
                ''[ALX] <NewModulePhase> Scanning edition-date-in-name files to store...''
                (sys self))
             (files2analyse self)
             = Inr (files2analyse self', me, fr, metadata_editor self', sys self')
           \<and> warns = fr @ me"
  using assms
  by (auto simp: write_date_to_files_with_edition_kdin_def Let_def and_then_Inr_iff) blast

text \<open>What a turn of each loop may do to a record.\<close>

lemma edition_body_clears:
  "edition_body E yb fo fe acc fi = Inr (fi', acc') \<Longrightarrow> \<not> ekdin fi'"
  by (auto simp: edition_body_def and_then_Inr_iff set_metadate_original_def Let_def
           split: prod.splits if_splits)

lemma edition_pass_clears:
  assumes "write_date_to_files_with_edition_kdin E self = Inr (warns, self')"
  shows "list_all (\<lambda>fi. \<not> ekdin fi) (files2analyse self')"
proof -
  from edition_pass_loop [OF assms] obtain fo fe acc0 acc' where
    f: "for_records (edition_body E (year_bounds self) fo fe) acc0 (files2analyse self)
          = Inr (files2analyse self', acc')"
    by auto
  have "list_all2 (\<lambda>a b. \<not> ekdin b) (files2analyse self) (files2analyse self')"
    by (rule for_records_rel [OF _ f]) (rule edition_body_clears)
  then show ?thesis
    by (simp add: list_all2_conv_all_nth list_all_length)
qed

lemma proprietary_body_stored:
  "proprietary_body E acc fi = Inr (fi', acc') \<Longrightarrow> date_stored fi \<longrightarrow> date_stored fi'"
  by (auto simp: proprietary_body_def update_proprietary_din_def and_then_Inr_iff
        date_stored_def Let_def split: prod.splits if_splits)

lemma edition_body_stored:
  "edition_body E yb fo fe acc fi = Inr (fi', acc') \<Longrightarrow> date_stored fi \<longrightarrow> date_stored fi'"
  by (auto simp: edition_body_def and_then_Inr_iff set_metadate_original_def
        date_stored_def Let_def split: prod.splits if_splits)

text \<open>The stored date.\<close>

lemma scan_update_inject:
  "(self\<lparr>metadata_editor := a, sys := b, files2analyse := x\<rparr>
      = self\<lparr>metadata_editor := a, sys := b, files2analyse := y\<rparr>) = (x = y)"
proof
  assume "self\<lparr>metadata_editor := a, sys := b, files2analyse := x\<rparr>
      = self\<lparr>metadata_editor := a, sys := b, files2analyse := y\<rparr>"
  then have "files2analyse (self\<lparr>metadata_editor := a, sys := b, files2analyse := x\<rparr>)
      = files2analyse (self\<lparr>metadata_editor := a, sys := b, files2analyse := y\<rparr>)"
    by (rule arg_cong)
  then show "x = y" by simp
qed simp

lemma scan_file_stored:
  assumes "scan_file E self f = Inr self'" and "list_all date_stored (files2analyse self)"
  shows "list_all date_stored (files2analyse self')"
  using assms
  by (simp add: scan_file_def Let_def and_then_Inr_iff split: if_splits)
     (auto simp: set_metadate_original_def new_FileInfo_def date_stored_def
        scan_update_inject split: if_splits)

lemma scan_files_stored:
  "scan_files E self files = Inr self' \<Longrightarrow> list_all date_stored (files2analyse self) \<Longrightarrow>
     list_all date_stored (files2analyse self')"
proof (induction files arbitrary: self)
  case Nil
  then show ?case by simp
next
  case (Cons f files)
  from Cons.prems(1) obtain self1 where
    a: "scan_file E self f = Inr self1" and b: "scan_files E self1 files = Inr self'"
    by (auto simp: and_then_Inr_iff)
  from Cons.IH [OF b scan_file_stored [OF a Cons.prems(2)]] show ?case .
qed

lemma scan_pass_stored:
  assumes "load_files2analyse E self = Inr self'" and "list_all date_stored (files2analyse self)"
  shows "list_all date_stored (files2analyse self')"
  using assms scan_files_stored [of E _ _ self']
  by (simp add: load_files2analyse_def Let_def)

lemma proprietary_pass_stored:
  assumes "rename_files_with_proprietary_convention E self = Inr (both, self')"
    and "list_all date_stored (files2analyse self)"
  shows "list_all date_stored (files2analyse self')"
proof -
  from proprietary_pass_loop [OF assms(1)] obtain acc0 acc' where
    f: "for_records (proprietary_body E) acc0 (files2analyse self)
          = Inr (files2analyse self', acc')"
    by auto
  have "list_all2 (\<lambda>a b. date_stored a \<longrightarrow> date_stored b)
          (files2analyse self) (files2analyse self')"
    by (rule for_records_rel [OF _ f]) (rule proprietary_body_stored)
  from list_all2_preserves [OF this assms(2)] show ?thesis .
qed

lemma integrity_step_stored:
  assumes "integrity_step fi fi'"
  shows "date_stored fi \<longrightarrow> date_stored fi'"
proof (cases "fi' = fi")
  case True
  then show ?thesis by simp
next
  case False
  define p where "p = abs_path fi'"
  from assms False have "fi' = fi\<lparr>abs_path := p, kdin := True\<rparr>"
    unfolding integrity_step_def p_def by (auto split: if_splits)
  then show ?thesis by (simp add: date_stored_def)
qed

lemma integrity_pass_stored:
  assumes "analyse_files_date_integrity E self = Inr (warns, self')"
    and "list_all date_stored (files2analyse self)"
  shows "list_all date_stored (files2analyse self')"
proof -
  have "list_all2 (\<lambda>a b. date_stored a \<longrightarrow> date_stored b)
          (files2analyse self) (files2analyse self')"
    by (rule list_all2_mono [OF integrity_pass_steps [OF assms(1)]])
       (rule integrity_step_stored)
  from list_all2_preserves [OF this assms(2)] show ?thesis .
qed

lemma edition_pass_stored:
  assumes "write_date_to_files_with_edition_kdin E self = Inr (warns, self')"
    and "list_all date_stored (files2analyse self)"
  shows "list_all date_stored (files2analyse self')"
proof -
  from edition_pass_loop [OF assms(1)] obtain fo fe acc0 acc' where
    f: "for_records (edition_body E (year_bounds self) fo fe) acc0 (files2analyse self)
          = Inr (files2analyse self', acc')"
    by auto
  have "list_all2 (\<lambda>a b. date_stored a \<longrightarrow> date_stored b)
          (files2analyse self) (files2analyse self')"
    by (rule for_records_rel [OF _ f]) (rule edition_body_stored)
  from list_all2_preserves [OF this assms(2)] show ?thesis .
qed

text \<open>\<^verbatim>\<open>run\<close>, opened up.\<close>

lemma run_chain:
  assumes "run E margin_secs embedded self = Inr (b, self')"
  shows "\<exists>self1 both self2 warns0 self3 warns1 self4 warns2 self5 warns3 self6.
      load_files2analyse E self = Inr self1
    \<and> rename_files_with_proprietary_convention E self1 = Inr (both, self2)
    \<and> analyse_files_date_integrity E self2 = Inr (warns0, self3)
    \<and> write_date_to_files_with_edition_kdin E self3 = Inr (warns1, self4)
    \<and> analyse_files_date_consistency E margin_secs self4 = Inr (warns2, self5)
    \<and> detect_files_out_of_folder_date_bounds E self5 = Inr (warns3, self6)
    \<and> b = (length warns0 + length warns1 + length warns2 + length warns3 \<noteq> 0)
    \<and> files2analyse self' = files2analyse self6
    \<and> (if embedded then sys self' = sys self6
        else effect Input (console_input (fsys E)) (sys self6) = Inr (sys self'))"
proof -
  from assms obtain self1 where
    p1: "load_files2analyse E self = Inr self1" and
    r1: "and_then (rename_files_with_proprietary_convention E self1) (\<lambda>(both, self2).
     and_then (analyse_files_date_integrity E self2) (\<lambda>(warns0, self3).
     and_then (write_date_to_files_with_edition_kdin E self3) (\<lambda>(warns1, self4).
     and_then (analyse_files_date_consistency E margin_secs self4) (\<lambda>(warns2, self5).
     and_then (detect_files_out_of_folder_date_bounds E self5) (\<lambda>(warns3, self6).
     and_then
       (if \<not> embedded
        then and_then (effect Input (console_input (fsys E)) (sys self6))
               (\<lambda>s. Inr (self6\<lparr>sys := s\<rparr>))
        else Inr self6)
       (\<lambda>self7.
          Inr (length warns0 + length warns1 + length warns2 + length warns3 \<noteq> 0,
               self7))))))) = Inr (b, self')"
    unfolding run_def and_then_Inr_iff by blast
  from r1 obtain both self2 where
    p2: "rename_files_with_proprietary_convention E self1 = Inr (both, self2)" and
    r2: "and_then (analyse_files_date_integrity E self2) (\<lambda>(warns0, self3).
     and_then (write_date_to_files_with_edition_kdin E self3) (\<lambda>(warns1, self4).
     and_then (analyse_files_date_consistency E margin_secs self4) (\<lambda>(warns2, self5).
     and_then (detect_files_out_of_folder_date_bounds E self5) (\<lambda>(warns3, self6).
     and_then
       (if \<not> embedded
        then and_then (effect Input (console_input (fsys E)) (sys self6))
               (\<lambda>s. Inr (self6\<lparr>sys := s\<rparr>))
        else Inr self6)
       (\<lambda>self7.
          Inr (length warns0 + length warns1 + length warns2 + length warns3 \<noteq> 0,
               self7)))))) = Inr (b, self')"
    unfolding and_then_Inr_iff [of "rename_files_with_proprietary_convention E self1"]
    by (auto split: prod.splits)
  from r2 obtain warns0 self3 where
    p3: "analyse_files_date_integrity E self2 = Inr (warns0, self3)" and
    r3: "and_then (write_date_to_files_with_edition_kdin E self3) (\<lambda>(warns1, self4).
     and_then (analyse_files_date_consistency E margin_secs self4) (\<lambda>(warns2, self5).
     and_then (detect_files_out_of_folder_date_bounds E self5) (\<lambda>(warns3, self6).
     and_then
       (if \<not> embedded
        then and_then (effect Input (console_input (fsys E)) (sys self6))
               (\<lambda>s. Inr (self6\<lparr>sys := s\<rparr>))
        else Inr self6)
       (\<lambda>self7.
          Inr (length warns0 + length warns1 + length warns2 + length warns3 \<noteq> 0,
               self7))))) = Inr (b, self')"
    unfolding and_then_Inr_iff [of "analyse_files_date_integrity E self2"]
    by (auto split: prod.splits)
  from r3 obtain warns1 self4 where
    p4: "write_date_to_files_with_edition_kdin E self3 = Inr (warns1, self4)" and
    r4: "and_then (analyse_files_date_consistency E margin_secs self4) (\<lambda>(warns2, self5).
     and_then (detect_files_out_of_folder_date_bounds E self5) (\<lambda>(warns3, self6).
     and_then
       (if \<not> embedded
        then and_then (effect Input (console_input (fsys E)) (sys self6))
               (\<lambda>s. Inr (self6\<lparr>sys := s\<rparr>))
        else Inr self6)
       (\<lambda>self7.
          Inr (length warns0 + length warns1 + length warns2 + length warns3 \<noteq> 0,
               self7)))) = Inr (b, self')"
    unfolding and_then_Inr_iff [of "write_date_to_files_with_edition_kdin E self3"]
    by (auto split: prod.splits)
  from r4 obtain warns2 self5 where
    p5: "analyse_files_date_consistency E margin_secs self4 = Inr (warns2, self5)" and
    r5: "and_then (detect_files_out_of_folder_date_bounds E self5) (\<lambda>(warns3, self6).
     and_then
       (if \<not> embedded
        then and_then (effect Input (console_input (fsys E)) (sys self6))
               (\<lambda>s. Inr (self6\<lparr>sys := s\<rparr>))
        else Inr self6)
       (\<lambda>self7.
          Inr (length warns0 + length warns1 + length warns2 + length warns3 \<noteq> 0,
               self7))) = Inr (b, self')"
    unfolding and_then_Inr_iff [of "analyse_files_date_consistency E margin_secs self4"]
    by (auto split: prod.splits)
  from r5 obtain warns3 self6 where
    p6: "detect_files_out_of_folder_date_bounds E self5 = Inr (warns3, self6)" and
    r6: "and_then
       (if \<not> embedded
        then and_then (effect Input (console_input (fsys E)) (sys self6))
               (\<lambda>s. Inr (self6\<lparr>sys := s\<rparr>))
        else Inr self6)
       (\<lambda>self7.
          Inr (length warns0 + length warns1 + length warns2 + length warns3 \<noteq> 0,
               self7)) = Inr (b, self')"
    unfolding and_then_Inr_iff [of "detect_files_out_of_folder_date_bounds E self5"]
    by (auto split: prod.splits)
  from r6 have
    b: "b = (length warns0 + length warns1 + length warns2 + length warns3 \<noteq> 0)" and
    f: "files2analyse self' = files2analyse self6" and
    i: "if embedded then sys self' = sys self6
        else effect Input (console_input (fsys E)) (sys self6) = Inr (sys self')"
    by (auto simp: and_then_Inr_iff split: if_splits)
  from p1 p2 p3 p4 p5 p6 b f i show ?thesis by blast
qed


















text \<open>
  C9. When the edit-date migration pass returns, no record has \<open>ekdin\<close>. In a run, the
  records that the folder-bounds pass reads (they are those of the state the run ends
  in) have no \<open>ekdin\<close>, so the best date of none of them is the EKDIN date.
\<close>

theorem edition_clears_ekdin:
  "(write_date_to_files_with_edition_kdin E self = Inr (warns, self') \<longrightarrow>
      list_all (\<lambda>fi. \<not> ekdin fi) (files2analyse self'))
   \<and> (run E margin_secs embedded self = Inr (b, self') \<longrightarrow>
      (\<exists>self1 both self2 warns0 self3 warns1 self4 warns2 self5 warns3 self6.
          load_files2analyse E self = Inr self1
        \<and> rename_files_with_proprietary_convention E self1 = Inr (both, self2)
        \<and> analyse_files_date_integrity E self2 = Inr (warns0, self3)
        \<and> write_date_to_files_with_edition_kdin E self3 = Inr (warns1, self4)
        \<and> analyse_files_date_consistency E margin_secs self4 = Inr (warns2, self5)
        \<and> detect_files_out_of_folder_date_bounds E self5 = Inr (warns3, self6)
        \<and> list_all (\<lambda>fi. \<not> ekdin fi) (files2analyse self5)
        \<and> list_all (\<lambda>fi. best_date_source fi \<noteq> FromEKDIN) (files2analyse self5)
        \<and> files2analyse self' = files2analyse self5))"
proof (intro conjI impI)
  assume "write_date_to_files_with_edition_kdin E self = Inr (warns, self')"
  then show "list_all (\<lambda>fi. \<not> ekdin fi) (files2analyse self')"
    by (rule edition_pass_clears)
next
  assume "run E margin_secs embedded self = Inr (b, self')"
  from run_chain [OF this] obtain self1 both self2 warns0 self3 warns1 self4 warns2 self5
      warns3 self6 where
    p1: "load_files2analyse E self = Inr self1" and
    p2: "rename_files_with_proprietary_convention E self1 = Inr (both, self2)" and
    p3: "analyse_files_date_integrity E self2 = Inr (warns0, self3)" and
    p4: "write_date_to_files_with_edition_kdin E self3 = Inr (warns1, self4)" and
    p5: "analyse_files_date_consistency E margin_secs self4 = Inr (warns2, self5)" and
    p6: "detect_files_out_of_folder_date_bounds E self5 = Inr (warns3, self6)" and
    f: "files2analyse self' = files2analyse self6"
    by blast
  from p5 have f5: "files2analyse self5 = files2analyse self4"
    by (auto simp: consistency_pass_eq)
  from p6 have f6: "files2analyse self6 = files2analyse self5"
    by (auto simp: bounds_pass_eq)
  from edition_pass_clears [OF p4] f5
  have c: "list_all (\<lambda>fi. \<not> ekdin fi) (files2analyse self5)" by simp
  then have s: "list_all (\<lambda>fi. best_date_source fi \<noteq> FromEKDIN) (files2analyse self5)"
    by (rule list.pred_mono_strong) (simp add: best_date_source_def)
  from f f6 have "files2analyse self' = files2analyse self5" by simp
  with p1 p2 p3 p4 p5 p6 c s
  show "\<exists>self1 both self2 warns0 self3 warns1 self4 warns2 self5 warns3 self6.
          load_files2analyse E self = Inr self1
        \<and> rename_files_with_proprietary_convention E self1 = Inr (both, self2)
        \<and> analyse_files_date_integrity E self2 = Inr (warns0, self3)
        \<and> write_date_to_files_with_edition_kdin E self3 = Inr (warns1, self4)
        \<and> analyse_files_date_consistency E margin_secs self4 = Inr (warns2, self5)
        \<and> detect_files_out_of_folder_date_bounds E self5 = Inr (warns3, self6)
        \<and> list_all (\<lambda>fi. \<not> ekdin fi) (files2analyse self5)
        \<and> list_all (\<lambda>fi. best_date_source fi \<noteq> FromEKDIN) (files2analyse self5)
        \<and> files2analyse self' = files2analyse self5"
    by blast
qed

lemma demo_edition_two:
  "map_sum id (\<lambda>r. map abs_path (files2analyse (snd r)))
     (write_date_to_files_with_edition_kdin demo
       ((demo_analyxer [[''d'', ''E1.jpg''], [''d'', ''E2.txx'']])
          \<lparr>files2analyse :=
             [new_FileInfo False True False False True True [''d'', ''E1.jpg''],
              new_FileInfo False True False False False False [''d'', ''E2.txx'']]\<rparr>))
   = Inr [[''d'', ''1.jpg''], [''d'', ''K2.txx'']]"
  by code_simp

lemma demo_run_two:
  "map_sum id (\<lambda>r. (fst r, map abs_path (files2analyse (snd r))))
     (run demo 60 True (demo_analyxer [[''d'', ''E1.jpg''], [''d'', ''E2.txx'']]))
   = Inr (True, [[''d'', ''1.jpg''], [''d'', ''K2.txx'']])"
  by code_simp

theorem edition_clears_ekdin_witness:
  "map_sum id (\<lambda>r. (map abs_path (files2analyse (snd r)),
                    list_all (\<lambda>fi. \<not> ekdin fi) (files2analyse (snd r))))
     (write_date_to_files_with_edition_kdin demo
       ((demo_analyxer [[''d'', ''E1.jpg''], [''d'', ''E2.txx'']])
          \<lparr>files2analyse :=
             [new_FileInfo False True False False True True [''d'', ''E1.jpg''],
              new_FileInfo False True False False False False [''d'', ''E2.txx'']]\<rparr>))
     = Inr ([[''d'', ''1.jpg''], [''d'', ''K2.txx'']], True)
   \<and> map_sum id (\<lambda>r. (map abs_path (files2analyse (snd r)),
                    list_all (\<lambda>fi. best_date_source fi \<noteq> FromEKDIN) (files2analyse (snd r))))
       (run demo 60 True (demo_analyxer [[''d'', ''E1.jpg''], [''d'', ''E2.txx'']]))
     = Inr ([[''d'', ''1.jpg''], [''d'', ''K2.txx'']], True)"
proof -
  let ?X = "(demo_analyxer [[''d'', ''E1.jpg''], [''d'', ''E2.txx'']])
          \<lparr>files2analyse :=
             [new_FileInfo False True False False True True [''d'', ''E1.jpg''],
              new_FileInfo False True False False False False [''d'', ''E2.txx'']]\<rparr>"
  let ?A = "demo_analyxer [[''d'', ''E1.jpg''], [''d'', ''E2.txx'']]"
  obtain warns a where
    w: "write_date_to_files_with_edition_kdin demo ?X = Inr (warns, a)" and
    wp: "map abs_path (files2analyse a) = [[''d'', ''1.jpg''], [''d'', ''K2.txx'']]"
    using demo_edition_two
    by (cases "write_date_to_files_with_edition_kdin demo ?X") auto
  from edition_clears_ekdin [where E = demo and self = ?X and warns = warns and self' = a] w
  have c1: "list_all (\<lambda>fi. \<not> ekdin fi) (files2analyse a)" by blast
  obtain a' where
    r: "run demo 60 True ?A = Inr (True, a')" and
    rp: "map abs_path (files2analyse a') = [[''d'', ''1.jpg''], [''d'', ''K2.txx'']]"
    using demo_run_two by (cases "run demo 60 True ?A") auto
  from edition_clears_ekdin [where E = demo and self = ?A and margin_secs = 60
      and embedded = True and b = True and self' = a' and warns = "[]",
      THEN conjunct2, THEN mp, OF r]
  obtain self5 :: "demo_world Analyxer" where
    "list_all (\<lambda>fi. best_date_source fi \<noteq> FromEKDIN) (files2analyse self5)"
    "files2analyse a' = files2analyse self5"
    by blast
  then have c2: "list_all (\<lambda>fi. best_date_source fi \<noteq> FromEKDIN) (files2analyse a')"
    by simp
  from w wp c1 r rp c2 show ?thesis by simp
qed

text \<open>
  C10. Every pass keeps the invariant of the stored date, and so does the run. After a
  run on records that have it (none, to begin with), every record with \<open>metadte\<close> has a
  date of its own, and \<^verbatim>\<open>get_metadate_original\<close> returns that date, not the value of the
  class.
\<close>

theorem stored_date_invariant:
  assumes "list_all date_stored (files2analyse self)"
  shows "(load_files2analyse E self = Inr self' \<longrightarrow> list_all date_stored (files2analyse self'))
   \<and> (rename_files_with_proprietary_convention E self = Inr (both, self') \<longrightarrow>
        list_all date_stored (files2analyse self'))
   \<and> (analyse_files_date_integrity E self = Inr (warns, self') \<longrightarrow>
        list_all date_stored (files2analyse self'))
   \<and> (write_date_to_files_with_edition_kdin E self = Inr (warns, self') \<longrightarrow>
        list_all date_stored (files2analyse self'))
   \<and> (analyse_files_date_consistency E margin_secs self = Inr (warns, self') \<longrightarrow>
        list_all date_stored (files2analyse self'))
   \<and> (detect_files_out_of_folder_date_bounds E self = Inr (warns, self') \<longrightarrow>
        list_all date_stored (files2analyse self'))
   \<and> (run E margin_secs embedded self = Inr (b, self') \<longrightarrow>
        list_all (\<lambda>fi. date_stored fi
                    \<and> (metadte fi \<longrightarrow>
                         (\<exists>d. metadata_original_date fi = Some d
                              \<and> get_metadate_original fi = Inr d)))
          (files2analyse self'))"
proof (intro conjI impI)
  assume "load_files2analyse E self = Inr self'"
  from scan_pass_stored [OF this assms] show "list_all date_stored (files2analyse self')" .
next
  assume "rename_files_with_proprietary_convention E self = Inr (both, self')"
  from proprietary_pass_stored [OF this assms]
  show "list_all date_stored (files2analyse self')" .
next
  assume "analyse_files_date_integrity E self = Inr (warns, self')"
  from integrity_pass_stored [OF this assms]
  show "list_all date_stored (files2analyse self')" .
next
  assume "write_date_to_files_with_edition_kdin E self = Inr (warns, self')"
  from edition_pass_stored [OF this assms]
  show "list_all date_stored (files2analyse self')" .
next
  assume "analyse_files_date_consistency E margin_secs self = Inr (warns, self')"
  with assms show "list_all date_stored (files2analyse self')"
    by (auto simp: consistency_pass_eq)
next
  assume "detect_files_out_of_folder_date_bounds E self = Inr (warns, self')"
  with assms show "list_all date_stored (files2analyse self')"
    by (auto simp: bounds_pass_eq)
next
  assume "run E margin_secs embedded self = Inr (b, self')"
  from run_chain [OF this] obtain self1 both self2 warns0 self3 warns1 self4 warns2 self5
      warns3 self6 where
    p1: "load_files2analyse E self = Inr self1" and
    p2: "rename_files_with_proprietary_convention E self1 = Inr (both, self2)" and
    p3: "analyse_files_date_integrity E self2 = Inr (warns0, self3)" and
    p4: "write_date_to_files_with_edition_kdin E self3 = Inr (warns1, self4)" and
    p5: "analyse_files_date_consistency E margin_secs self4 = Inr (warns2, self5)" and
    p6: "detect_files_out_of_folder_date_bounds E self5 = Inr (warns3, self6)" and
    f: "files2analyse self' = files2analyse self6"
    by blast
  from p5 have f5: "files2analyse self5 = files2analyse self4"
    by (auto simp: consistency_pass_eq)
  from p6 have f6: "files2analyse self6 = files2analyse self5"
    by (auto simp: bounds_pass_eq)
  have "list_all date_stored (files2analyse self4)"
    by (rule edition_pass_stored [OF p4 integrity_pass_stored [OF p3
          proprietary_pass_stored [OF p2 scan_pass_stored [OF p1 assms]]]])
  with f f5 f6 have "list_all date_stored (files2analyse self')" by simp
  then show "list_all (\<lambda>fi. date_stored fi
                    \<and> (metadte fi \<longrightarrow>
                         (\<exists>d. metadata_original_date fi = Some d
                              \<and> get_metadate_original fi = Inr d)))
          (files2analyse self')"
    by (rule list.pred_mono_strong)
       (auto simp: date_stored_def get_metadate_original_def attr_metadata_original_date_def)
qed

lemma demo_run_dates:
  "map_sum id (\<lambda>r. (fst r, map (\<lambda>fi. (abs_path fi, get_metadate_original fi))
                              (files2analyse (snd r))))
     (run demo 60 True (demo_analyxer [[''d'', ''K30.jpg''], [''d'', ''E1.jpg''],
                                       [''d'', ''plain.jpg'']]))
   = Inr (True, [([''d'', ''K30.jpg''], Inr (mk_datetime 2020 1 1 10 0 30 0)),
                 ([''d'', ''1.jpg''], Inr (mk_datetime 2021 3 4 0 0 0 0)),
                 ([''d'', ''Kplain.jpg''], Inl AssertionError)])"
  by code_simp

theorem stored_date_invariant_witness:
  "map_sum id (\<lambda>r. (map (\<lambda>fi. (abs_path fi, get_metadate_original fi)) (files2analyse (snd r)),
                    list_all date_stored (files2analyse (snd r))))
     (run demo 60 True (demo_analyxer [[''d'', ''K30.jpg''], [''d'', ''E1.jpg''],
                                       [''d'', ''plain.jpg'']]))
   = Inr ([([''d'', ''K30.jpg''], Inr (mk_datetime 2020 1 1 10 0 30 0)),
           ([''d'', ''1.jpg''], Inr (mk_datetime 2021 3 4 0 0 0 0)),
           ([''d'', ''Kplain.jpg''], Inl AssertionError)], True)"
proof -
  let ?A = "demo_analyxer [[''d'', ''K30.jpg''], [''d'', ''E1.jpg''], [''d'', ''plain.jpg'']]"
  obtain a where
    r: "run demo 60 True ?A = Inr (True, a)" and
    d: "map (\<lambda>fi. (abs_path fi, get_metadate_original fi)) (files2analyse a)
           = [([''d'', ''K30.jpg''], Inr (mk_datetime 2020 1 1 10 0 30 0)),
              ([''d'', ''1.jpg''], Inr (mk_datetime 2021 3 4 0 0 0 0)),
              ([''d'', ''Kplain.jpg''], Inl AssertionError)]"
    using demo_run_dates by (cases "run demo 60 True ?A") auto
  have h: "list_all date_stored (files2analyse ?A)"
    by (simp add: demo_defs2)
  from stored_date_invariant [OF h, where E = demo and margin_secs = 60
      and embedded = True and b = True and self' = a and warns = "[]"
      and both = "([], [])"] r
  have "list_all (\<lambda>fi. date_stored fi
                    \<and> (metadte fi \<longrightarrow>
                         (\<exists>d. metadata_original_date fi = Some d
                              \<and> get_metadate_original fi = Inr d)))
          (files2analyse a)"
    by simp
  then have "list_all date_stored (files2analyse a)"
    by (rule list.pred_mono_strong) simp
  with r d show ?thesis by simp
qed

subsection \<open>The record\<close>

text \<open>
  C8. Reading or writing the metadata original date of a record whose \<open>metadte\<close> is false
  raises \<^verbatim>\<open>AssertionError\<close>: no value and no updated record comes back. With \<open>metadte\<close>
  true the write stores the date and the read returns the stored date.
\<close>

theorem metadate_original_contract:
  "get_metadate_original (fi\<lparr>metadte := False\<rparr>) = Inl AssertionError
   \<and> set_metadate_original (fi\<lparr>metadte := False\<rparr>) d = Inl AssertionError
   \<and> set_metadate_original (fi\<lparr>metadte := True\<rparr>) d
        = Inr (fi\<lparr>metadte := True, metadata_original_date := Some d\<rparr>)
   \<and> get_metadate_original (fi\<lparr>metadte := True, metadata_original_date := Some d\<rparr>) = Inr d"
  by (simp add: get_metadate_original_def set_metadate_original_def
        attr_metadata_original_date_def)

end
